theory Spec2Isabelle
  imports Complex_Main "HOL-Library.Sublist"
begin

section \<open>JavaScript values\<close>

text \<open>
  The tool handlers receive the \<open>arguments\<close> object of a tool call (parsed JSON) and read
  its properties. A property that is absent reads as \<open>undefined\<close>: a JavaScript value is
  modelled as \<open>json option\<close>, with \<open>None\<close> for \<open>undefined\<close>. \<open>JNaN\<close> is the one number
  that is not JSON and that \<open>new Date(v).getTime()\<close> can still produce.
\<close>

datatype json =
    JNull
  | JBool bool
  | JNum rat
  | JNaN
  | JStr string
  | JArr "json list"
  | JObj "(string \<times> json) list"

type_synonym jsval = "json option"

type_synonym argbag = "string \<rightharpoonup> json"

text \<open>ToBoolean of ECMAScript: what \<open>a || b\<close>, \<open>!a\<close> and \<open>a ? b : c\<close> test.\<close>

fun truthy :: "jsval \<Rightarrow> bool" where
  "truthy None = False"
| "truthy (Some JNull) = False"
| "truthy (Some (JBool b)) = b"
| "truthy (Some (JNum n)) = (if n = 0 then False else True)"
| "truthy (Some JNaN) = False"
| "truthy (Some (JStr s)) = (case s of [] \<Rightarrow> False | _ \<Rightarrow> True)"
| "truthy (Some (JArr xs)) = True"
| "truthy (Some (JObj kvs)) = True"

text \<open>\<open>a || d\<close> with a constant right operand.\<close>

definition or_else :: "jsval \<Rightarrow> json \<Rightarrow> jsval" where
  "or_else v d = (if truthy v then v else Some d)"

section \<open>The runtime library\<close>

text \<open>
  The builtins the handlers call are not code of the repository. They are total on the
  values that reach them here and are taken as parameters: every theorem below holds for
  any runtime.
  \<^item> \<open>Number_toString n\<close>: \<open>String(n)\<close> for a finite number;
  \<^item> \<open>Date_toISOString t\<close>: \<open>new Date(t).toISOString()\<close> for a time value in milliseconds;
  \<^item> \<open>Date_getTime v\<close>: \<open>new Date(v).getTime()\<close>, a number or NaN;
  \<^item> \<open>JSON_stringify v\<close>: \<open>JSON.stringify(v, null, 2)\<close>.
\<close>

record runtime =
  Number_toString :: "rat \<Rightarrow> string"
  Date_toISOString :: "int \<Rightarrow> string"
  Date_getTime :: "jsval \<Rightarrow> json"
  JSON_stringify :: "json \<Rightarrow> string"

fun join :: "string \<Rightarrow> string list \<Rightarrow> string" where
  "join sep [] = []"
| "join sep [x] = x"
| "join sep (x # y # ys) = x @ sep @ join sep (y # ys)"

text \<open>
  ToString of ECMAScript, which a template literal applies to each \<open>${...}\<close>: an array joins
  its elements with commas (null prints as the empty string there), a plain object prints
  as \<open>[object Object]\<close>. An object that has a key \<open>toString\<close> or \<open>valueOf\<close> of its own,
  which Node refuses to convert, is printed like any other object here.
\<close>

fun ToString_json :: "runtime \<Rightarrow> json \<Rightarrow> string" where
  "ToString_json rt JNull = ''null''"
| "ToString_json rt (JBool b) = (if b then ''true'' else ''false'')"
| "ToString_json rt (JNum n) = Number_toString rt n"
| "ToString_json rt JNaN = ''NaN''"
| "ToString_json rt (JStr s) = s"
| "ToString_json rt (JArr xs) =
     join '','' (map (\<lambda>x. case x of JNull \<Rightarrow> [] | _ \<Rightarrow> ToString_json rt x) xs)"
| "ToString_json rt (JObj kvs) = ''[object Object]''"

definition ToString :: "runtime \<Rightarrow> jsval \<Rightarrow> string" where
  "ToString rt v = (case v of None \<Rightarrow> ''undefined'' | Some j \<Rightarrow> ToString_json rt j)"

section \<open>Requests, results and errors\<close>

datatype http_method = GET | POST

text \<open>
  What one call of the HTTP client carries: \<open>this.api.get(url, {params})\<close> has query
  parameters and no body, \<open>this.api.post(url, data)\<close> has a body and no parameters. A
  property whose value is \<open>undefined\<close> is kept in the list with \<open>None\<close>.
\<close>

record OutboundRequest =
  req_method :: http_method
  req_path :: string
  req_params :: "(string \<times> jsval) list"
  req_body :: "(string \<times> jsval) list option"

text \<open>The result envelope \<open>{content: [{type, text}]}\<close>.\<close>

record content_item =
  ctype :: string
  ctext :: string

record ToolResult =
  content :: "content_item list"

datatype error_code = MethodNotFound

text \<open>
  What a handler can throw: the protocol fault \<open>McpError\<close>, or any other error object, of
  which only the \<open>message\<close> property is ever read.
\<close>

datatype exn = McpError error_code string | JsError jsval

text \<open>
  The TypeError of Node for reading a property of \<open>undefined\<close>, and for destructuring
  \<open>undefined\<close>: the \<open>arguments\<close> of a tool call are optional in the protocol, so \<open>args\<close>
  can be \<open>undefined\<close>.
\<close>

definition TypeError_read :: "string \<Rightarrow> exn" where
  "TypeError_read p =
     JsError (Some (JStr (''Cannot read properties of undefined (reading '' @ [CHR 0x27] @ p @ [CHR 0x27] @ '')'')))"

definition TypeError_destructure :: "string \<Rightarrow> exn" where
  "TypeError_destructure p =
     JsError (Some (JStr (''Cannot destructure property '' @ [CHR 0x27] @ p @ [CHR 0x27]
       @ '' of '' @ [CHR 0x27] @ ''args'' @ [CHR 0x27] @ '' as it is undefined.'')))"

section \<open>The environment of a call\<close>

text \<open>
  The process configuration, read once at start.
\<close>

record config =
  OPENREPLAY_PROJECT_ID :: string
  OPENREPLAY_PROJECT_KEY :: string

text \<open>
  The outside world: \<open>clock n\<close> is what the \<open>n\<close>-th reading of the system clock returns
  (milliseconds since the epoch), \<open>remote n r\<close> is how the \<open>n\<close>-th outbound request ends
  when it is \<open>r\<close>: with the response body, or rejected with an error of the given
  \<open>message\<close>. The HTTP client never rejects with an \<open>McpError\<close>.
\<close>

datatype http_outcome = Resolved json | Rejected jsval

record world =
  clock :: "nat \<Rightarrow> int"
  remote :: "nat \<Rightarrow> OutboundRequest \<Rightarrow> http_outcome"

text \<open>What has happened so far: the number of clock readings, and the requests sent.\<close>

record trace =
  reads :: nat
  sent :: "OutboundRequest list"

type_synonym 'a outcome = "(exn + 'a) \<times> trace"

definition Date_now :: "world \<Rightarrow> trace \<Rightarrow> int \<times> trace" where
  "Date_now w s = (clock w (reads s), s\<lparr>reads := Suc (reads s)\<rparr>)"

text \<open>\<open>new Date(Date.now() - back).toISOString()\<close>; with \<open>back = 0\<close>, \<open>new Date().toISOString()\<close>.\<close>

definition iso_ago :: "runtime \<Rightarrow> world \<Rightarrow> int \<Rightarrow> trace \<Rightarrow> jsval \<times> trace" where
  "iso_ago rt w back s =
     (let (t, s') = Date_now w s in (Some (JStr (Date_toISOString rt (t - back))), s'))"

text \<open>\<open>Date.now() - back\<close>, a number.\<close>

definition ms_ago :: "world \<Rightarrow> int \<Rightarrow> trace \<Rightarrow> jsval \<times> trace" where
  "ms_ago w back s = (let (t, s') = Date_now w s in (Some (JNum (of_int (t - back))), s'))"

text \<open>\<open>v || e\<close> where evaluating \<open>e\<close> reads the clock: \<open>e\<close> runs only when \<open>v\<close> is falsy.\<close>

definition lazy_or :: "jsval \<Rightarrow> (trace \<Rightarrow> jsval \<times> trace) \<Rightarrow> trace \<Rightarrow> jsval \<times> trace" where
  "lazy_or v e s = (if truthy v then (v, s) else e s)"

text \<open>\<open>v ? new Date(v).getTime() : e\<close>.\<close>

definition time_or :: "runtime \<Rightarrow> jsval \<Rightarrow> (trace \<Rightarrow> jsval \<times> trace) \<Rightarrow> trace \<Rightarrow> jsval \<times> trace" where
  "time_or rt v e s = (if truthy v then (Some (Date_getTime rt v), s) else e s)"

definition api_call :: "world \<Rightarrow> OutboundRequest \<Rightarrow> trace \<Rightarrow> json outcome" where
  "api_call w r s =
     ((case remote w (length (sent s)) r of
         Resolved d \<Rightarrow> Inr d
       | Rejected m \<Rightarrow> Inl (JsError m)),
      s\<lparr>sent := sent s @ [r]\<rparr>)"

definition api_get :: "world \<Rightarrow> string \<Rightarrow> (string \<times> jsval) list \<Rightarrow> trace \<Rightarrow> json outcome" where
  "api_get w url ps s =
     api_call w \<lparr>req_method = GET, req_path = url, req_params = ps, req_body = None\<rparr> s"

definition api_post :: "world \<Rightarrow> string \<Rightarrow> (string \<times> jsval) list \<Rightarrow> trace \<Rightarrow> json outcome" where
  "api_post w url data s =
     api_call w \<lparr>req_method = POST, req_path = url, req_params = [], req_body = Some data\<rparr> s"

definition text_result :: "string \<Rightarrow> ToolResult" where
  "text_result t = \<lparr>content = [\<lparr>ctype = ''text'', ctext = t\<rparr>]\<rparr>"

text \<open>
  The tail of every handler that awaits a response: a rejection is thrown on, a response
  body is returned as \<open>{content: [{type: "text", text: JSON.stringify(response.data, null, 2)}]}\<close>.
\<close>

definition reply :: "runtime \<Rightarrow> json outcome \<Rightarrow> ToolResult outcome" where
  "reply rt r =
     (case r of
        (Inl e, s) \<Rightarrow> (Inl e, s)
      | (Inr d, s) \<Rightarrow> (Inr (text_result (JSON_stringify rt d)), s))"

section \<open>The handlers of the full-access server (\<open>src/index.ts\<close>)\<close>

text \<open>
  Each handler is the source method, statement by statement: reading a property of an
  \<open>undefined\<close> \<open>args\<close> throws before anything else happens; the body or the parameters
  are built left to right, reading the clock where a date is defaulted; one request is
  sent; the response body is serialised.
\<close>

definition seven_days :: int where
  "seven_days = 7 * 24 * 60 * 60 * 1000"

definition thirty_days :: int where
  "thirty_days = 30 * 24 * 60 * 60 * 1000"

definition searchSessions ::
  "runtime \<Rightarrow> config \<Rightarrow> world \<Rightarrow> argbag option \<Rightarrow> trace \<Rightarrow> ToolResult outcome" where
  "searchSessions rt cfg w args s =
     (case args of
        None \<Rightarrow> (Inl (TypeError_read ''startDate''), s)
      | Some a \<Rightarrow>
          (let (startDate, s1) = lazy_or (a ''startDate'') (iso_ago rt w seven_days) s;
               (endDate, s2) = lazy_or (a ''endDate'') (iso_ago rt w 0) s1
           in reply rt (api_post w
                (''/v1/projects/'' @ OPENREPLAY_PROJECT_ID cfg @ ''/sessions/search'')
                [(''startDate'', startDate),
                 (''endDate'', endDate),
                 (''filters'', or_else (a ''filters'') (JArr [])),
                 (''limit'', or_else (a ''limit'') (JNum 50)),
                 (''offset'', or_else (a ''offset'') (JNum 0)),
                 (''sort'', or_else (a ''sort'')
                    (JObj [(''field'', JStr ''startedAt''), (''order'', JStr ''desc'')]))]
                s2)))"

definition getSessionDetails ::
  "runtime \<Rightarrow> config \<Rightarrow> world \<Rightarrow> argbag option \<Rightarrow> trace \<Rightarrow> ToolResult outcome" where
  "getSessionDetails rt cfg w args s =
     (case args of
        None \<Rightarrow> (Inl (TypeError_destructure ''sessionId''), s)
      | Some a \<Rightarrow>
          reply rt (api_get w
            (''/v1/projects/'' @ OPENREPLAY_PROJECT_ID cfg @ ''/sessions/''
               @ ToString rt (a ''sessionId''))
            [] s))"

definition getSessionEvents ::
  "runtime \<Rightarrow> config \<Rightarrow> world \<Rightarrow> argbag option \<Rightarrow> trace \<Rightarrow> ToolResult outcome" where
  "getSessionEvents rt cfg w args s =
     (case args of
        None \<Rightarrow> (Inl (TypeError_destructure ''sessionId''), s)
      | Some a \<Rightarrow>
          reply rt (api_get w
            (''/v1/projects/'' @ OPENREPLAY_PROJECT_ID cfg @ ''/sessions/''
               @ ToString rt (a ''sessionId'') @ ''/events'')
            [(''eventTypes'', a ''eventTypes''),
             (''startTime'', a ''startTime''),
             (''endTime'', a ''endTime'')]
            s))"

definition aggregateSessions ::
  "runtime \<Rightarrow> config \<Rightarrow> world \<Rightarrow> argbag option \<Rightarrow> trace \<Rightarrow> ToolResult outcome" where
  "aggregateSessions rt cfg w args s =
     (case args of
        None \<Rightarrow> (Inl (TypeError_read ''startDate''), s)
      | Some a \<Rightarrow>
          (let (startDate, s1) = lazy_or (a ''startDate'') (iso_ago rt w seven_days) s;
               (endDate, s2) = lazy_or (a ''endDate'') (iso_ago rt w 0) s1
           in reply rt (api_post w
                (''/v1/projects/'' @ OPENREPLAY_PROJECT_ID cfg @ ''/sessions/aggregate'')
                [(''startDate'', startDate),
                 (''endDate'', endDate),
                 (''metrics'', a ''metrics''),
                 (''groupBy'', or_else (a ''groupBy'') (JArr [])),
                 (''filters'', or_else (a ''filters'') (JArr []))]
                s2)))"

definition getUserJourney ::
  "runtime \<Rightarrow> config \<Rightarrow> world \<Rightarrow> argbag option \<Rightarrow> trace \<Rightarrow> ToolResult outcome" where
  "getUserJourney rt cfg w args s =
     (case args of
        None \<Rightarrow> (Inl (TypeError_destructure ''userId''), s)
      | Some a \<Rightarrow>
          reply rt (api_get w
            (''/v1/projects/'' @ OPENREPLAY_PROJECT_ID cfg @ ''/users/''
               @ ToString rt (a ''userId'') @ ''/journey'')
            [(''startDate'', a ''startDate''),
             (''endDate'', a ''endDate''),
             (''includeEvents'', a ''includeEvents'')]
            s))"

definition getErrorsIssues ::
  "runtime \<Rightarrow> config \<Rightarrow> world \<Rightarrow> argbag option \<Rightarrow> trace \<Rightarrow> ToolResult outcome" where
  "getErrorsIssues rt cfg w args s =
     (case args of
        None \<Rightarrow> (Inl (TypeError_read ''startDate''), s)
      | Some a \<Rightarrow>
          (let (startDate, s1) = lazy_or (a ''startDate'') (iso_ago rt w seven_days) s;
               (endDate, s2) = lazy_or (a ''endDate'') (iso_ago rt w 0) s1
           in reply rt (api_post w
                (''/v1/projects/'' @ OPENREPLAY_PROJECT_ID cfg @ ''/errors/search'')
                [(''startDate'', startDate),
                 (''endDate'', endDate),
                 (''errorTypes'', or_else (a ''errorTypes'') (JArr [])),
                 (''minOccurrences'', or_else (a ''minOccurrences'') (JNum 1)),
                 (''groupBy'', or_else (a ''groupBy'') (JStr ''message''))]
                s2)))"

definition getFunnelAnalysis ::
  "runtime \<Rightarrow> config \<Rightarrow> world \<Rightarrow> argbag option \<Rightarrow> trace \<Rightarrow> ToolResult outcome" where
  "getFunnelAnalysis rt cfg w args s =
     (case args of
        None \<Rightarrow> (Inl (TypeError_read ''steps''), s)
      | Some a \<Rightarrow>
          (let (startDate, s1) = lazy_or (a ''startDate'') (iso_ago rt w seven_days) s;
               (endDate, s2) = lazy_or (a ''endDate'') (iso_ago rt w 0) s1
           in reply rt (api_post w
                (''/v1/projects/'' @ OPENREPLAY_PROJECT_ID cfg @ ''/funnels/analyze'')
                [(''steps'', a ''steps''),
                 (''startDate'', startDate),
                 (''endDate'', endDate),
                 (''filters'', or_else (a ''filters'') (JArr []))]
                s2)))"

definition getPerformanceMetrics ::
  "runtime \<Rightarrow> config \<Rightarrow> world \<Rightarrow> argbag option \<Rightarrow> trace \<Rightarrow> ToolResult outcome" where
  "getPerformanceMetrics rt cfg w args s =
     (case args of
        None \<Rightarrow> (Inl (TypeError_read ''startDate''), s)
      | Some a \<Rightarrow>
          (let (startDate, s1) = lazy_or (a ''startDate'') (iso_ago rt w seven_days) s;
               (endDate, s2) = lazy_or (a ''endDate'') (iso_ago rt w 0) s1
           in reply rt (api_post w
                (''/v1/projects/'' @ OPENREPLAY_PROJECT_ID cfg @ ''/performance/metrics'')
                [(''startDate'', startDate),
                 (''endDate'', endDate),
                 (''metrics'', a ''metrics''),
                 (''groupBy'', or_else (a ''groupBy'') (JArr [])),
                 (''percentiles'', or_else (a ''percentiles'')
                    (JArr [JNum 50, JNum 75, JNum 90, JNum 95, JNum 99]))]
                s2)))"

definition executeCustomQuery ::
  "runtime \<Rightarrow> config \<Rightarrow> world \<Rightarrow> argbag option \<Rightarrow> trace \<Rightarrow> ToolResult outcome" where
  "executeCustomQuery rt cfg w args s =
     (case args of
        None \<Rightarrow> (Inl (TypeError_destructure ''query''), s)
      | Some a \<Rightarrow>
          reply rt (api_post w
            (''/v1/projects/'' @ OPENREPLAY_PROJECT_ID cfg @ ''/query'')
            [(''query'', a ''query''),
             (''parameters'', or_else (a ''parameters'') (JObj []))]
            s))"

text \<open>The \<open>switch\<close> of the call handler; the default case throws the protocol fault.\<close>

definition callTool ::
  "runtime \<Rightarrow> config \<Rightarrow> world \<Rightarrow> string \<Rightarrow> argbag option \<Rightarrow> trace \<Rightarrow> ToolResult outcome" where
  "callTool rt cfg w name args s =
     (if name = ''search_sessions'' then searchSessions rt cfg w args s
      else if name = ''get_session_details'' then getSessionDetails rt cfg w args s
      else if name = ''get_session_events'' then getSessionEvents rt cfg w args s
      else if name = ''aggregate_sessions'' then aggregateSessions rt cfg w args s
      else if name = ''get_user_journey'' then getUserJourney rt cfg w args s
      else if name = ''get_errors_issues'' then getErrorsIssues rt cfg w args s
      else if name = ''get_funnel_analysis'' then getFunnelAnalysis rt cfg w args s
      else if name = ''get_performance_metrics'' then getPerformanceMetrics rt cfg w args s
      else if name = ''execute_custom_query'' then executeCustomQuery rt cfg w args s
      else (Inl (McpError MethodNotFound (''Unknown tool: '' @ name)), s))"

section \<open>The handlers of the API-key server (the second server file)\<close>

text \<open>
  The organization API key reaches only the \<open>/api/v1\<close> endpoints. The handlers of the
  tools that have no such endpoint return a fixed text and send nothing.
\<close>

definition listProjects :: "runtime \<Rightarrow> world \<Rightarrow> trace \<Rightarrow> ToolResult outcome" where
  "listProjects rt w s = reply rt (api_get w ''/api/v1/projects'' [] s)"

definition getUserSessions ::
  "runtime \<Rightarrow> config \<Rightarrow> world \<Rightarrow> argbag option \<Rightarrow> trace \<Rightarrow> ToolResult outcome" where
  "getUserSessions rt cfg w args s =
     (case args of
        None \<Rightarrow> (Inl (TypeError_destructure ''userId''), s)
      | Some a \<Rightarrow>
          (let (start_date, s1) = time_or rt (a ''startDate'') (\<lambda>s. (None, s)) s;
               (end_date, s2) = time_or rt (a ''endDate'') (\<lambda>s. (None, s)) s1
           in reply rt (api_get w
                (''/api/v1/'' @ OPENREPLAY_PROJECT_KEY cfg @ ''/users/''
                   @ ToString rt (a ''userId'') @ ''/sessions'')
                [(''start_date'', start_date), (''end_date'', end_date)]
                s2)))"

definition searchSessions_key ::
  "runtime \<Rightarrow> config \<Rightarrow> world \<Rightarrow> argbag option \<Rightarrow> trace \<Rightarrow> ToolResult outcome" where
  "searchSessions_key rt cfg w args s =
     (case args of
        None \<Rightarrow> (Inl (TypeError_read ''userId''), s)
      | Some a \<Rightarrow>
          if \<not> truthy (a ''userId'') then
            (Inr (text_result ''Session search requires a userId when using API key authentication. For full search capabilities, JWT authentication is needed.''), s)
          else
            (let (start_date, s1) = time_or rt (a ''startDate'') (ms_ago w seven_days) s;
                 (end_date, s2) = time_or rt (a ''endDate'') (ms_ago w 0) s1
             in reply rt (api_get w
                  (''/api/v1/'' @ OPENREPLAY_PROJECT_KEY cfg @ ''/users/''
                     @ ToString rt (a ''userId'') @ ''/sessions'')
                  [(''start_date'', start_date), (''end_date'', end_date)]
                  s2)))"

definition getSessionDetails_key ::
  "runtime \<Rightarrow> config \<Rightarrow> world \<Rightarrow> argbag option \<Rightarrow> trace \<Rightarrow> ToolResult outcome" where
  "getSessionDetails_key rt cfg w args s =
     (case args of
        None \<Rightarrow> (Inl (TypeError_destructure ''sessionId''), s)
      | Some a \<Rightarrow>
          (Inr (text_result ''Session replay details are not available via API key authentication. Use get_session_events instead or use JWT authentication for full access.''), s))"

definition getSessionEvents_key ::
  "runtime \<Rightarrow> config \<Rightarrow> world \<Rightarrow> argbag option \<Rightarrow> trace \<Rightarrow> ToolResult outcome" where
  "getSessionEvents_key rt cfg w args s =
     (case args of
        None \<Rightarrow> (Inl (TypeError_destructure ''sessionId''), s)
      | Some a \<Rightarrow>
          reply rt (api_get w
            (''/api/v1/'' @ OPENREPLAY_PROJECT_KEY cfg @ ''/sessions/''
               @ ToString rt (a ''sessionId'') @ ''/events'')
            [] s))"

definition aggregateSessions_key ::
  "runtime \<Rightarrow> config \<Rightarrow> world \<Rightarrow> argbag option \<Rightarrow> trace \<Rightarrow> ToolResult outcome" where
  "aggregateSessions_key rt cfg w args s =
     (Inr (text_result ''Session aggregation is not available via API key authentication. You can retrieve individual user sessions instead.''), s)"

definition getUserJourney_key ::
  "runtime \<Rightarrow> config \<Rightarrow> world \<Rightarrow> argbag option \<Rightarrow> trace \<Rightarrow> ToolResult outcome" where
  "getUserJourney_key rt cfg w args s =
     (case args of
        None \<Rightarrow> (Inl (TypeError_destructure ''userId''), s)
      | Some a \<Rightarrow>
          (let (start_date, s1) = time_or rt (a ''startDate'') (ms_ago w thirty_days) s;
               (end_date, s2) = time_or rt (a ''endDate'') (ms_ago w 0) s1
           in reply rt (api_get w
                (''/api/v1/'' @ OPENREPLAY_PROJECT_KEY cfg @ ''/users/''
                   @ ToString rt (a ''userId'') @ ''/sessions'')
                [(''start_date'', start_date), (''end_date'', end_date)]
                s2)))"

definition getErrorsIssues_key ::
  "runtime \<Rightarrow> config \<Rightarrow> world \<Rightarrow> argbag option \<Rightarrow> trace \<Rightarrow> ToolResult outcome" where
  "getErrorsIssues_key rt cfg w args s =
     (Inr (text_result ''Error analysis is not available via API key authentication. JWT authentication is required for this feature.''), s)"

definition getFunnelAnalysis_key ::
  "runtime \<Rightarrow> config \<Rightarrow> world \<Rightarrow> argbag option \<Rightarrow> trace \<Rightarrow> ToolResult outcome" where
  "getFunnelAnalysis_key rt cfg w args s =
     (Inr (text_result ''Funnel analysis is not available via API key authentication. JWT authentication is required for this feature.''), s)"

definition getPerformanceMetrics_key ::
  "runtime \<Rightarrow> config \<Rightarrow> world \<Rightarrow> argbag option \<Rightarrow> trace \<Rightarrow> ToolResult outcome" where
  "getPerformanceMetrics_key rt cfg w args s =
     (Inr (text_result ''Performance metrics are not available via API key authentication. JWT authentication is required for this feature.''), s)"

definition executeCustomQuery_key ::
  "runtime \<Rightarrow> config \<Rightarrow> world \<Rightarrow> argbag option \<Rightarrow> trace \<Rightarrow> ToolResult outcome" where
  "executeCustomQuery_key rt cfg w args s =
     (case args of
        None \<Rightarrow> (Inl (TypeError_destructure ''query''), s)
      | Some a \<Rightarrow>
          (Inr (text_result ''Custom queries are not directly supported. Please use the specific search and filter tools instead.''), s))"

definition callTool_key ::
  "runtime \<Rightarrow> config \<Rightarrow> world \<Rightarrow> string \<Rightarrow> argbag option \<Rightarrow> trace \<Rightarrow> ToolResult outcome" where
  "callTool_key rt cfg w name args s =
     (if name = ''list_projects'' then listProjects rt w s
      else if name = ''get_user_sessions'' then getUserSessions rt cfg w args s
      else if name = ''search_sessions'' then searchSessions_key rt cfg w args s
      else if name = ''get_session_details'' then getSessionDetails_key rt cfg w args s
      else if name = ''get_session_events'' then getSessionEvents_key rt cfg w args s
      else if name = ''aggregate_sessions'' then aggregateSessions_key rt cfg w args s
      else if name = ''get_user_journey'' then getUserJourney_key rt cfg w args s
      else if name = ''get_errors_issues'' then getErrorsIssues_key rt cfg w args s
      else if name = ''get_funnel_analysis'' then getFunnelAnalysis_key rt cfg w args s
      else if name = ''get_performance_metrics'' then getPerformanceMetrics_key rt cfg w args s
      else if name = ''execute_custom_query'' then executeCustomQuery_key rt cfg w args s
      else (Inl (McpError MethodNotFound (''Unknown tool: '' @ name)), s))"

section \<open>The dispatcher\<close>

text \<open>
  The \<open>catch\<close> of the call handler, the same in both files: an \<open>McpError\<close> is thrown
  again, any other error becomes a text result built from its \<open>message\<close>.
\<close>

definition catch_error :: "runtime \<Rightarrow> ToolResult outcome \<Rightarrow> ToolResult outcome" where
  "catch_error rt r =
     (case r of
        (Inl (McpError c m), s) \<Rightarrow> (Inl (McpError c m), s)
      | (Inl (JsError m), s) \<Rightarrow>
          (Inr (text_result
             (''Error: '' @ ToString rt (or_else m (JStr ''Unknown error occurred'')))), s)
      | (Inr v, s) \<Rightarrow> (Inr v, s))"

text \<open>The authentication mode is the choice of the server file, fixed at start.\<close>

datatype auth_mode = FullAccess | ApiKey

definition dispatch ::
  "auth_mode \<Rightarrow> runtime \<Rightarrow> config \<Rightarrow> world \<Rightarrow> string \<Rightarrow> argbag option \<Rightarrow> trace
     \<Rightarrow> ToolResult outcome" where
  "dispatch mode rt cfg w name args s =
     (case mode of
        FullAccess \<Rightarrow> callTool rt cfg w name args s
      | ApiKey \<Rightarrow> callTool_key rt cfg w name args s)"

text \<open>The call handler: the \<open>switch\<close> inside the \<open>try\<close>, then the \<open>catch\<close>.\<close>

definition handle ::
  "auth_mode \<Rightarrow> runtime \<Rightarrow> config \<Rightarrow> world \<Rightarrow> string \<Rightarrow> argbag option \<Rightarrow> trace
     \<Rightarrow> ToolResult outcome" where
  "handle mode rt cfg w name args s = catch_error rt (dispatch mode rt cfg w name args s)"

section \<open>The tool registry\<close>

text \<open>
  The answer to the list-tools request, per server file: for each tool its name, the
  properties of its input schema and the required ones (descriptions and property types
  are left out).
\<close>

record ToolDefinition =
  tool_name :: string
  properties :: "string list"
  required :: "string list"

definition listTools :: "auth_mode \<Rightarrow> ToolDefinition list" where
  "listTools mode =
     (case mode of
        FullAccess \<Rightarrow>
          [\<lparr>tool_name = ''search_sessions'',
            properties = [''startDate'', ''endDate'', ''filters'', ''limit'', ''offset'', ''sort''],
            required = []\<rparr>,
           \<lparr>tool_name = ''get_session_details'', properties = [''sessionId''],
            required = [''sessionId'']\<rparr>,
           \<lparr>tool_name = ''get_session_events'',
            properties = [''sessionId'', ''eventTypes'', ''startTime'', ''endTime''],
            required = [''sessionId'']\<rparr>,
           \<lparr>tool_name = ''aggregate_sessions'',
            properties = [''startDate'', ''endDate'', ''metrics'', ''groupBy'', ''filters''],
            required = [''metrics'']\<rparr>,
           \<lparr>tool_name = ''get_user_journey'',
            properties = [''userId'', ''startDate'', ''endDate'', ''includeEvents''],
            required = [''userId'']\<rparr>,
           \<lparr>tool_name = ''get_errors_issues'',
            properties = [''startDate'', ''endDate'', ''errorTypes'', ''minOccurrences'', ''groupBy''],
            required = []\<rparr>,
           \<lparr>tool_name = ''get_funnel_analysis'',
            properties = [''steps'', ''startDate'', ''endDate'', ''filters''],
            required = [''steps'']\<rparr>,
           \<lparr>tool_name = ''get_performance_metrics'',
            properties = [''startDate'', ''endDate'', ''metrics'', ''groupBy'', ''percentiles''],
            required = [''metrics'']\<rparr>,
           \<lparr>tool_name = ''execute_custom_query'', properties = [''query'', ''parameters''],
            required = [''query'']\<rparr>]
      | ApiKey \<Rightarrow>
          [\<lparr>tool_name = ''list_projects'', properties = [], required = []\<rparr>,
           \<lparr>tool_name = ''get_user_sessions'',
            properties = [''userId'', ''startDate'', ''endDate''],
            required = [''userId'']\<rparr>,
           \<lparr>tool_name = ''search_sessions'',
            properties = [''userId'', ''startDate'', ''endDate'', ''filters'', ''limit'', ''offset'', ''sort''],
            required = []\<rparr>,
           \<lparr>tool_name = ''get_session_details'', properties = [''sessionId''],
            required = [''sessionId'']\<rparr>,
           \<lparr>tool_name = ''get_session_events'',
            properties = [''sessionId'', ''eventTypes'', ''startTime'', ''endTime''],
            required = [''sessionId'']\<rparr>,
           \<lparr>tool_name = ''aggregate_sessions'',
            properties = [''startDate'', ''endDate'', ''metrics'', ''groupBy'', ''filters''],
            required = [''metrics'']\<rparr>,
           \<lparr>tool_name = ''get_user_journey'',
            properties = [''userId'', ''startDate'', ''endDate'', ''includeEvents''],
            required = [''userId'']\<rparr>,
           \<lparr>tool_name = ''get_errors_issues'',
            properties = [''startDate'', ''endDate'', ''errorTypes'', ''minOccurrences'', ''groupBy''],
            required = []\<rparr>,
           \<lparr>tool_name = ''get_funnel_analysis'',
            properties = [''steps'', ''startDate'', ''endDate'', ''filters''],
            required = [''steps'']\<rparr>,
           \<lparr>tool_name = ''get_performance_metrics'',
            properties = [''startDate'', ''endDate'', ''metrics'', ''groupBy'', ''percentiles''],
            required = [''metrics'']\<rparr>,
           \<lparr>tool_name = ''execute_custom_query'', properties = [''query'', ''parameters''],
            required = [''query'']\<rparr>])"

definition declared :: "auth_mode \<Rightarrow> string \<Rightarrow> bool" where
  "declared mode name = (name \<in> set (map tool_name (listTools mode)))"

text \<open>The requests a call sent: those of the trace after it that the trace before it lacks.\<close>

definition issued :: "trace \<Rightarrow> trace \<Rightarrow> OutboundRequest list" where
  "issued s s' = drop (length (sent s)) (sent s')"

section \<open>A runtime for worked examples\<close>

text \<open>
  An executable instance of the runtime, used to run the handlers on concrete inputs. It
  prints numbers in decimal, serialises JSON with an indentation of two spaces as
  \<open>JSON.stringify(v, null, 2)\<close> does, and converts between time values and the
  \<open>YYYY-MM-DDTHH:mm:ss.sssZ\<close> format of \<open>toISOString\<close>. Strings in other date formats,
  arrays and objects, which Node parses by rules of its own, are read as NaN by
  \<open>getTime_impl\<close>.
\<close>

definition digit :: "nat \<Rightarrow> char" where
  "digit n = ''0123456789abcdef'' ! (n mod 16)"

fun string_of_nat :: "nat \<Rightarrow> string" where
  "string_of_nat n =
     (if n < 10 then [digit n] else string_of_nat (n div 10) @ [digit (n mod 10)])"

declare string_of_nat.simps [simp del]

fun frac_digits :: "nat \<Rightarrow> rat \<Rightarrow> string" where
  "frac_digits 0 r = []"
| "frac_digits (Suc k) r =
     (if r = 0 then []
      else digit (nat \<lfloor>r * 10\<rfloor>) # frac_digits k (r * 10 - of_int \<lfloor>r * 10\<rfloor>))"

definition number_impl :: "rat \<Rightarrow> string" where
  "number_impl r =
     (let a = \<bar>r\<bar>; f = a - of_int \<lfloor>a\<rfloor>
      in (if r < 0 then ''-'' else [])
         @ string_of_nat (nat \<lfloor>a\<rfloor>)
         @ (if f = 0 then [] else ''.'' @ frac_digits 17 f))"

definition pad :: "nat \<Rightarrow> nat \<Rightarrow> string" where
  "pad k n = replicate (k - length (string_of_nat n)) CHR ''0'' @ string_of_nat n"

text \<open>The civil date of a day number (days since 1970-01-01), and back.\<close>

definition civil_from_days :: "int \<Rightarrow> int \<times> int \<times> int" where
  "civil_from_days z0 =
     (let z = z0 + 719468;
          era = z div 146097;
          doe = z - era * 146097;
          yoe = (doe - doe div 1460 + doe div 36524 - doe div 146096) div 365;
          doy = doe - (365 * yoe + yoe div 4 - yoe div 100);
          mp = (5 * doy + 2) div 153;
          d = doy - (153 * mp + 2) div 5 + 1;
          m = (if mp < 10 then mp + 3 else mp - 9);
          y = yoe + era * 400 + (if m \<le> 2 then 1 else 0)
      in (y, m, d))"

definition days_from_civil :: "int \<Rightarrow> int \<Rightarrow> int \<Rightarrow> int" where
  "days_from_civil y0 m d =
     (let y = (if m \<le> 2 then y0 - 1 else y0);
          era = y div 400;
          yoe = y - era * 400;
          doy = (153 * (if m > 2 then m - 3 else m + 9) + 2) div 5 + d - 1;
          doe = yoe * 365 + yoe div 4 - yoe div 100 + doy
      in era * 146097 + doe - 719468)"

definition toISOString_impl :: "int \<Rightarrow> string" where
  "toISOString_impl t =
     (let ms = t mod 86400000;
          (y, m, d) = civil_from_days (t div 86400000)
      in (if 0 \<le> y \<and> y \<le> 9999 then pad 4 (nat y)
          else (if y < 0 then ''-'' else ''+'') @ pad 6 (nat \<bar>y\<bar>))
         @ ''-'' @ pad 2 (nat m) @ ''-'' @ pad 2 (nat d)
         @ ''T'' @ pad 2 (nat (ms div 3600000))
         @ '':'' @ pad 2 (nat (ms div 60000 mod 60))
         @ '':'' @ pad 2 (nat (ms div 1000 mod 60))
         @ ''.'' @ pad 3 (nat (ms mod 1000)) @ ''Z'')"

fun number_of :: "nat \<Rightarrow> string \<Rightarrow> nat option" where
  "number_of acc [] = Some acc"
| "number_of acc (c # cs) =
     (if 48 \<le> (of_char c :: nat) \<and> (of_char c :: nat) \<le> 57
      then number_of (acc * 10 + (of_char c - 48)) cs else None)"

definition days_in_month :: "int \<Rightarrow> int \<Rightarrow> int" where
  "days_in_month y m = days_from_civil (if m = 12 then y + 1 else y) (if m = 12 then 1 else m + 1) 1
                       - days_from_civil y m 1"

definition parse_iso :: "string \<Rightarrow> json" where
  "parse_iso s =
     (if length s = 24 \<and> s ! 4 = CHR ''-'' \<and> s ! 7 = CHR ''-'' \<and> s ! 10 = CHR ''T''
         \<and> s ! 13 = CHR '':'' \<and> s ! 16 = CHR '':'' \<and> s ! 19 = CHR ''.'' \<and> s ! 23 = CHR ''Z''
      then
        (case map (number_of 0)
                [take 4 s, take 2 (drop 5 s), take 2 (drop 8 s), take 2 (drop 11 s),
                 take 2 (drop 14 s), take 2 (drop 17 s), take 3 (drop 20 s)] of
           [Some y, Some m, Some d, Some h, Some mi, Some se, Some ms] \<Rightarrow>
             if 1 \<le> m \<and> m \<le> 12 \<and> 1 \<le> d \<and> int d \<le> days_in_month (int y) (int m)
                \<and> h < 24 \<and> mi < 60 \<and> se < 60
             then JNum (of_int (days_from_civil (int y) (int m) (int d) * 86400000
                    + int h * 3600000 + int mi * 60000 + int se * 1000 + int ms))
             else JNaN
         | _ \<Rightarrow> JNaN)
      else JNaN)"

definition getTime_impl :: "jsval \<Rightarrow> json" where
  "getTime_impl v =
     (case v of
        Some (JNum n) \<Rightarrow>
          (if \<bar>n\<bar> \<le> 8640000000000000
           then JNum (of_int (if n < 0 then - \<lfloor>- n\<rfloor> else \<lfloor>n\<rfloor>)) else JNaN)
      | Some (JStr s) \<Rightarrow> parse_iso s
      | Some (JBool b) \<Rightarrow> JNum (if b then 1 else 0)
      | Some JNull \<Rightarrow> JNum 0
      | _ \<Rightarrow> JNaN)"

definition escape_char :: "char \<Rightarrow> string" where
  "escape_char c =
     (if c = CHR 0x22 then [CHR 0x5C, CHR 0x22]
      else if c = CHR 0x5C then [CHR 0x5C, CHR 0x5C]
      else if c = CHR 0x08 then [CHR 0x5C, CHR ''b'']
      else if c = CHR 0x0C then [CHR 0x5C, CHR ''f'']
      else if c = CHR 0x0A then [CHR 0x5C, CHR ''n'']
      else if c = CHR 0x0D then [CHR 0x5C, CHR ''r'']
      else if c = CHR 0x09 then [CHR 0x5C, CHR ''t'']
      else if (of_char c :: nat) < 32
        then [CHR 0x5C, CHR ''u'', CHR ''0'', CHR ''0'', digit (of_char c div 16), digit (of_char c mod 16)]
      else [c])"

definition quote :: "string \<Rightarrow> string" where
  "quote s = [CHR 0x22] @ concat (map escape_char s) @ [CHR 0x22]"

fun stringify :: "string \<Rightarrow> json \<Rightarrow> string" where
  "stringify ind JNull = ''null''"
| "stringify ind (JBool b) = (if b then ''true'' else ''false'')"
| "stringify ind (JNum n) = number_impl n"
| "stringify ind JNaN = ''null''"
| "stringify ind (JStr s) = quote s"
| "stringify ind (JArr xs) =
     (case xs of
        [] \<Rightarrow> ''[]''
      | _ \<Rightarrow> ''['' @ [CHR 0x0A] @ ind @ ''  ''
             @ join ('','' @ [CHR 0x0A] @ ind @ ''  '') (map (stringify (ind @ ''  '')) xs)
             @ [CHR 0x0A] @ ind @'']'')"
| "stringify ind (JObj kvs) =
     (case kvs of
        [] \<Rightarrow> ''{}''
      | _ \<Rightarrow> ''{'' @ [CHR 0x0A] @ ind @ ''  ''
             @ join ('','' @ [CHR 0x0A] @ ind @ ''  '')
                 (map (\<lambda>kv. quote (fst kv) @ '': '' @ stringify (ind @ ''  '') (snd kv)) kvs)
             @ [CHR 0x0A] @ ind @ ''}'')"

definition example_runtime :: runtime where
  "example_runtime =
     \<lparr>Number_toString = number_impl,
      Date_toISOString = toISOString_impl,
      Date_getTime = getTime_impl,
      JSON_stringify = stringify []\<rparr>"

section \<open>Notions the properties are stated with\<close>

text \<open>The payload of a request: its query parameters, then the properties of its body.\<close>

definition payload :: "OutboundRequest \<Rightarrow> (string \<times> jsval) list" where
  "payload q = req_params q @ (case req_body q of None \<Rightarrow> [] | Some b \<Rightarrow> b)"

text \<open>
  The fields of a request whose default is computed from the clock, each with the
  argument it is defaulted from, per mode and tool.
\<close>

definition time_defaults :: "auth_mode \<Rightarrow> string \<Rightarrow> (string \<times> string) list" where
  "time_defaults mode name =
     (case mode of
        FullAccess \<Rightarrow>
          if name \<in> set [''search_sessions'', ''aggregate_sessions'', ''get_errors_issues'',
                          ''get_funnel_analysis'', ''get_performance_metrics'']
          then [(''startDate'', ''startDate''), (''endDate'', ''endDate'')] else []
      | ApiKey \<Rightarrow>
          if name \<in> set [''search_sessions'', ''get_user_journey'']
          then [(''start_date'', ''startDate''), (''end_date'', ''endDate'')] else [])"

text \<open>
  A field of a request is time-derived in a call when its default comes from the clock
  and the caller's argument is falsy, so that the default is what was sent.
\<close>

definition time_derived :: "(string \<times> string) list \<Rightarrow> argbag \<Rightarrow> string \<Rightarrow> bool" where
  "time_derived td a k = (case map_of td k of None \<Rightarrow> False | Some p \<Rightarrow> \<not> truthy (a p))"

definition strip_fields ::
  "(string \<times> string) list \<Rightarrow> argbag option \<Rightarrow> OutboundRequest \<Rightarrow> OutboundRequest" where
  "strip_fields td args q =
     (case args of
        None \<Rightarrow> q
      | Some a \<Rightarrow>
          q\<lparr>req_params := filter (\<lambda>kv. \<not> time_derived td a (fst kv)) (req_params q),
            req_body := map_option (filter (\<lambda>kv. \<not> time_derived td a (fst kv))) (req_body q)\<rparr>)"

text \<open>
  The shape of a request: its method, its path and its payload without the
  time-derived fields.
\<close>

definition shape :: "auth_mode \<Rightarrow> string \<Rightarrow> argbag option \<Rightarrow> OutboundRequest \<Rightarrow> OutboundRequest" where
  "shape mode name args q = strip_fields (time_defaults mode name) args q"


text \<open>
  A handler outcome is tame when either nothing was sent and the handler returned a
  single text item or threw an error that is not the protocol fault, or exactly one
  request was sent and the outcome is that of the request: its response body serialised,
  or its rejection thrown.
\<close>

definition tame :: "runtime \<Rightarrow> world \<Rightarrow> trace \<Rightarrow> ToolResult outcome \<Rightarrow> bool" where
  "tame rt w s r =
     ((sent (snd r) = sent s \<and> issued s (snd r) = []
         \<and> ((\<exists>t. fst r = Inr (text_result t)) \<or> (\<exists>m. fst r = Inl (JsError m))))
      \<or> (\<exists>q. sent (snd r) = sent s @ [q] \<and> issued s (snd r) = [q]
             \<and> fst r = (case remote w (length (sent s)) q of
                          Resolved d \<Rightarrow> Inr (text_result (JSON_stringify rt d))
                        | Rejected m \<Rightarrow> Inl (JsError m))))"






text \<open>The inputs of the worked examples.\<close>

definition example_config :: config where
  "example_config = \<lparr>OPENREPLAY_PROJECT_ID = ''p1'', OPENREPLAY_PROJECT_KEY = ''k1''\<rparr>"

definition start_trace :: trace where
  "start_trace = \<lparr>reads = 0, sent = []\<rparr>"

text \<open>A world whose clock stands at 2023-11-14T22:13:20.000Z and whose remote answers \<open>{"total": 3}\<close>.\<close>

definition answering_world :: world where
  "answering_world =
     \<lparr>clock = (\<lambda>n. 1700000000000), remote = (\<lambda>n q. Resolved (JObj [(''total'', JNum 3)]))\<rparr>"

text \<open>A world whose remote rejects every request with the message \<open>ECONNRESET\<close>.\<close>

definition failing_world :: world where
  "failing_world =
     \<lparr>clock = (\<lambda>n. 1700000000000), remote = (\<lambda>n q. Rejected (Some (JStr ''ECONNRESET'')))\<rparr>"

text \<open>
  A world whose clock advances by a quarter of a second at each reading and whose remote
  answers every other request and rejects the rest.
\<close>

definition ticking_world :: world where
  "ticking_world =
     \<lparr>clock = (\<lambda>n. 1700000000000 + 250 * int n),
      remote = (\<lambda>n q. if even n then Resolved (JObj [(''total'', JNum 3)])
                       else Rejected (Some (JStr ''ECONNRESET'')))\<rparr>"

section \<open>What every handler does\<close>

lemma tame_reply:
  "sent s1 = sent s \<Longrightarrow> tame rt w s (reply rt (api_call w q s1))"
  by (simp add: tame_def reply_def api_call_def issued_def split: http_outcome.splits)

lemma tame_text: "tame rt w s (Inr (text_result t), s)"
  by (auto simp add: tame_def issued_def)

lemma tame_throw: "tame rt w s (Inl (JsError m), s)"
  by (simp add: tame_def issued_def)

lemma sent_iso_ago: "sent (snd (iso_ago rt w b s)) = sent s"
  by (simp add: iso_ago_def Date_now_def)

lemma sent_ms_ago: "sent (snd (ms_ago w b s)) = sent s"
  by (simp add: ms_ago_def Date_now_def)

lemma sent_lazy_or:
  "(\<And>s. sent (snd (e s)) = sent s) \<Longrightarrow> sent (snd (lazy_or v e s)) = sent s"
  by (simp add: lazy_or_def)

lemma sent_time_or:
  "(\<And>s. sent (snd (e s)) = sent s) \<Longrightarrow> sent (snd (time_or rt v e s)) = sent s"
  by (simp add: time_or_def)

lemmas tame_rules =
  tame_reply tame_text tame_throw sent_iso_ago sent_ms_ago sent_lazy_or sent_time_or
  TypeError_read_def TypeError_destructure_def api_post_def api_get_def case_prod_beta

lemma tame_listProjects: "tame rt w s (listProjects rt w s)"
  by (simp add: listProjects_def tame_rules)

lemma tame_searchSessions: "tame rt w s (searchSessions rt cfg w args s)"
  by (simp add: searchSessions_def tame_rules split: option.splits)

lemma tame_getSessionDetails: "tame rt w s (getSessionDetails rt cfg w args s)"
  by (simp add: getSessionDetails_def tame_rules split: option.splits)

lemma tame_getSessionEvents: "tame rt w s (getSessionEvents rt cfg w args s)"
  by (simp add: getSessionEvents_def tame_rules split: option.splits)

lemma tame_aggregateSessions: "tame rt w s (aggregateSessions rt cfg w args s)"
  by (simp add: aggregateSessions_def tame_rules split: option.splits)

lemma tame_getUserJourney: "tame rt w s (getUserJourney rt cfg w args s)"
  by (simp add: getUserJourney_def tame_rules split: option.splits)

lemma tame_getErrorsIssues: "tame rt w s (getErrorsIssues rt cfg w args s)"
  by (simp add: getErrorsIssues_def tame_rules split: option.splits)

lemma tame_getFunnelAnalysis: "tame rt w s (getFunnelAnalysis rt cfg w args s)"
  by (simp add: getFunnelAnalysis_def tame_rules split: option.splits)

lemma tame_getPerformanceMetrics: "tame rt w s (getPerformanceMetrics rt cfg w args s)"
  by (simp add: getPerformanceMetrics_def tame_rules split: option.splits)

lemma tame_executeCustomQuery: "tame rt w s (executeCustomQuery rt cfg w args s)"
  by (simp add: executeCustomQuery_def tame_rules split: option.splits)

lemma tame_getUserSessions: "tame rt w s (getUserSessions rt cfg w args s)"
  by (simp add: getUserSessions_def tame_rules split: option.splits)

lemma tame_searchSessions_key: "tame rt w s (searchSessions_key rt cfg w args s)"
  by (simp add: searchSessions_key_def tame_rules split: option.splits)

lemma tame_getSessionDetails_key: "tame rt w s (getSessionDetails_key rt cfg w args s)"
  by (simp add: getSessionDetails_key_def tame_rules split: option.splits)

lemma tame_getSessionEvents_key: "tame rt w s (getSessionEvents_key rt cfg w args s)"
  by (simp add: getSessionEvents_key_def tame_rules split: option.splits)

lemma tame_aggregateSessions_key: "tame rt w s (aggregateSessions_key rt cfg w args s)"
  by (simp add: aggregateSessions_key_def tame_rules split: option.splits)

lemma tame_getUserJourney_key: "tame rt w s (getUserJourney_key rt cfg w args s)"
  by (simp add: getUserJourney_key_def tame_rules split: option.splits)

lemma tame_getErrorsIssues_key: "tame rt w s (getErrorsIssues_key rt cfg w args s)"
  by (simp add: getErrorsIssues_key_def tame_rules split: option.splits)

lemma tame_getFunnelAnalysis_key: "tame rt w s (getFunnelAnalysis_key rt cfg w args s)"
  by (simp add: getFunnelAnalysis_key_def tame_rules split: option.splits)

lemma tame_getPerformanceMetrics_key: "tame rt w s (getPerformanceMetrics_key rt cfg w args s)"
  by (simp add: getPerformanceMetrics_key_def tame_rules split: option.splits)

lemma tame_executeCustomQuery_key: "tame rt w s (executeCustomQuery_key rt cfg w args s)"
  by (simp add: executeCustomQuery_key_def tame_rules split: option.splits)

lemmas tame_handlers =
  tame_listProjects tame_searchSessions tame_getSessionDetails tame_getSessionEvents tame_aggregateSessions tame_getUserJourney tame_getErrorsIssues tame_getFunnelAnalysis tame_getPerformanceMetrics tame_executeCustomQuery tame_getUserSessions tame_searchSessions_key tame_getSessionDetails_key tame_getSessionEvents_key tame_aggregateSessions_key tame_getUserJourney_key tame_getErrorsIssues_key tame_getFunnelAnalysis_key tame_getPerformanceMetrics_key tame_executeCustomQuery_key

lemma dispatch_declared:
  "declared mode name \<Longrightarrow> tame rt w s (dispatch mode rt cfg w name args s)"
  by (cases mode)
     (auto simp add: declared_def listTools_def dispatch_def callTool_def
        callTool_key_def tame_handlers)

lemma dispatch_undeclared:
  "\<not> declared mode name \<Longrightarrow>
     dispatch mode rt cfg w name args s =
       (Inl (McpError MethodNotFound (''Unknown tool: '' @ name)), s)"
  by (cases mode)
     (auto simp add: declared_def listTools_def dispatch_def callTool_def
        callTool_key_def)

lemma fst_catch_error_tame:
  assumes "tame rt w s r"
  shows "\<exists>t. fst (catch_error rt r) = Inr (text_result t)"
proof -
  from assms consider
      (quiet) t where "fst r = Inr (text_result t)"
    | (thrown) m where "fst r = Inl (JsError m)"
    | (answered) q where
        "fst r = (case remote w (length (sent s)) q of
                    Resolved d \<Rightarrow> Inr (text_result (JSON_stringify rt d))
                  | Rejected m \<Rightarrow> Inl (JsError m))"
    unfolding tame_def by blast
  then show ?thesis
  proof cases
    case quiet
    then show ?thesis by (cases r) (auto simp add: catch_error_def)
  next
    case thrown
    then show ?thesis by (cases r) (auto simp add: catch_error_def)
  next
    case answered
    then show ?thesis
      by (cases r; cases "remote w (length (sent s)) q") (auto simp add: catch_error_def)
  qed
qed

lemma snd_catch_error: "snd (catch_error rt r) = snd r"
  by (cases r) (auto simp add: catch_error_def split: sum.splits exn.splits)

lemma tame_sent: "tame rt w s r \<Longrightarrow> sent (snd r) = sent s @ issued s (snd r)"
  by (auto simp add: tame_def)

lemma tame_length: "tame rt w s r \<Longrightarrow> length (issued s (snd r)) \<le> 1"
  by (auto simp add: tame_def)

lemma tame_rejected:
  assumes "tame rt w s r" and "issued s (snd r) = [q]"
    and "remote w (length (sent s)) q = Rejected m"
  shows "fst r = Inl (JsError m)"
  using assms by (auto simp add: tame_def)

lemma undeclared_issued:
  "\<not> declared mode name \<Longrightarrow> issued s (snd (dispatch mode rt cfg w name args s)) = []"
  by (simp add: dispatch_undeclared issued_def)

section \<open>The request of each handler\<close>

lemma issued_same: "issued s s = []"
  by (simp add: issued_def)

lemma issued_reply:
  "sent s1 = sent s \<Longrightarrow> issued s (snd (reply rt (api_call w q s1))) = [q]"
  by (simp add: reply_def api_call_def issued_def split: http_outcome.splits)

lemma fst_lazy_or_truthy: "truthy v \<Longrightarrow> fst (lazy_or v e s) = v"
  by (simp add: lazy_or_def)

lemma fst_time_or_truthy: "truthy v \<Longrightarrow> fst (time_or rt v e s) = Some (Date_getTime rt v)"
  by (simp add: time_or_def)

lemma fst_time_or_falsy: "\<not> truthy v \<Longrightarrow> fst (time_or rt v (\<lambda>s. (None, s)) s) = None"
  by (simp add: time_or_def)



lemmas request_rules =
  case_prod_beta api_post_def api_get_def issued_reply issued_same sent_lazy_or sent_time_or
  sent_iso_ago sent_ms_ago fst_lazy_or_truthy fst_time_or_truthy fst_time_or_falsy

text \<open>
  The shape of the request of a handler is the same in every world and after every
  history.
\<close>

lemma shape_listProjects:
  "map (strip_fields [] args) (issued s (snd (listProjects rt w s)))
     = map (strip_fields [] args) (issued s' (snd (listProjects rt w' s')))"
  by (simp add: listProjects_def request_rules)

lemma shape_searchSessions:
  "map (strip_fields [(''startDate'', ''startDate''), (''endDate'', ''endDate'')] args)
       (issued s (snd (searchSessions rt cfg w args s)))
     = map (strip_fields [(''startDate'', ''startDate''), (''endDate'', ''endDate'')] args)
         (issued s' (snd (searchSessions rt cfg w' args s')))"
proof (cases args)
  case None
  then show ?thesis
    by (simp add: searchSessions_def issued_same)
next
  case (Some a)
  show ?thesis
    unfolding Some
    by (cases "truthy (a ''startDate'')"; cases "truthy (a ''endDate'')")
       (simp_all add: searchSessions_def request_rules strip_fields_def time_derived_def)
qed

lemma shape_getSessionDetails:
  "map (strip_fields [] args)
       (issued s (snd (getSessionDetails rt cfg w args s)))
     = map (strip_fields [] args)
         (issued s' (snd (getSessionDetails rt cfg w' args s')))"
proof (cases args)
  case None
  then show ?thesis
    by (simp add: getSessionDetails_def issued_same)
next
  case (Some a)
  show ?thesis
    unfolding Some
    by (cases "truthy (a ''startDate'')"; cases "truthy (a ''endDate'')")
       (simp_all add: getSessionDetails_def request_rules strip_fields_def time_derived_def)
qed

lemma shape_getSessionEvents:
  "map (strip_fields [] args)
       (issued s (snd (getSessionEvents rt cfg w args s)))
     = map (strip_fields [] args)
         (issued s' (snd (getSessionEvents rt cfg w' args s')))"
proof (cases args)
  case None
  then show ?thesis
    by (simp add: getSessionEvents_def issued_same)
next
  case (Some a)
  show ?thesis
    unfolding Some
    by (cases "truthy (a ''startDate'')"; cases "truthy (a ''endDate'')")
       (simp_all add: getSessionEvents_def request_rules strip_fields_def time_derived_def)
qed

lemma shape_aggregateSessions:
  "map (strip_fields [(''startDate'', ''startDate''), (''endDate'', ''endDate'')] args)
       (issued s (snd (aggregateSessions rt cfg w args s)))
     = map (strip_fields [(''startDate'', ''startDate''), (''endDate'', ''endDate'')] args)
         (issued s' (snd (aggregateSessions rt cfg w' args s')))"
proof (cases args)
  case None
  then show ?thesis
    by (simp add: aggregateSessions_def issued_same)
next
  case (Some a)
  show ?thesis
    unfolding Some
    by (cases "truthy (a ''startDate'')"; cases "truthy (a ''endDate'')")
       (simp_all add: aggregateSessions_def request_rules strip_fields_def time_derived_def)
qed

lemma shape_getUserJourney:
  "map (strip_fields [] args)
       (issued s (snd (getUserJourney rt cfg w args s)))
     = map (strip_fields [] args)
         (issued s' (snd (getUserJourney rt cfg w' args s')))"
proof (cases args)
  case None
  then show ?thesis
    by (simp add: getUserJourney_def issued_same)
next
  case (Some a)
  show ?thesis
    unfolding Some
    by (cases "truthy (a ''startDate'')"; cases "truthy (a ''endDate'')")
       (simp_all add: getUserJourney_def request_rules strip_fields_def time_derived_def)
qed

lemma shape_getErrorsIssues:
  "map (strip_fields [(''startDate'', ''startDate''), (''endDate'', ''endDate'')] args)
       (issued s (snd (getErrorsIssues rt cfg w args s)))
     = map (strip_fields [(''startDate'', ''startDate''), (''endDate'', ''endDate'')] args)
         (issued s' (snd (getErrorsIssues rt cfg w' args s')))"
proof (cases args)
  case None
  then show ?thesis
    by (simp add: getErrorsIssues_def issued_same)
next
  case (Some a)
  show ?thesis
    unfolding Some
    by (cases "truthy (a ''startDate'')"; cases "truthy (a ''endDate'')")
       (simp_all add: getErrorsIssues_def request_rules strip_fields_def time_derived_def)
qed

lemma shape_getFunnelAnalysis:
  "map (strip_fields [(''startDate'', ''startDate''), (''endDate'', ''endDate'')] args)
       (issued s (snd (getFunnelAnalysis rt cfg w args s)))
     = map (strip_fields [(''startDate'', ''startDate''), (''endDate'', ''endDate'')] args)
         (issued s' (snd (getFunnelAnalysis rt cfg w' args s')))"
proof (cases args)
  case None
  then show ?thesis
    by (simp add: getFunnelAnalysis_def issued_same)
next
  case (Some a)
  show ?thesis
    unfolding Some
    by (cases "truthy (a ''startDate'')"; cases "truthy (a ''endDate'')")
       (simp_all add: getFunnelAnalysis_def request_rules strip_fields_def time_derived_def)
qed

lemma shape_getPerformanceMetrics:
  "map (strip_fields [(''startDate'', ''startDate''), (''endDate'', ''endDate'')] args)
       (issued s (snd (getPerformanceMetrics rt cfg w args s)))
     = map (strip_fields [(''startDate'', ''startDate''), (''endDate'', ''endDate'')] args)
         (issued s' (snd (getPerformanceMetrics rt cfg w' args s')))"
proof (cases args)
  case None
  then show ?thesis
    by (simp add: getPerformanceMetrics_def issued_same)
next
  case (Some a)
  show ?thesis
    unfolding Some
    by (cases "truthy (a ''startDate'')"; cases "truthy (a ''endDate'')")
       (simp_all add: getPerformanceMetrics_def request_rules strip_fields_def time_derived_def)
qed

lemma shape_executeCustomQuery:
  "map (strip_fields [] args)
       (issued s (snd (executeCustomQuery rt cfg w args s)))
     = map (strip_fields [] args)
         (issued s' (snd (executeCustomQuery rt cfg w' args s')))"
proof (cases args)
  case None
  then show ?thesis
    by (simp add: executeCustomQuery_def issued_same)
next
  case (Some a)
  show ?thesis
    unfolding Some
    by (cases "truthy (a ''startDate'')"; cases "truthy (a ''endDate'')")
       (simp_all add: executeCustomQuery_def request_rules strip_fields_def time_derived_def)
qed

lemma shape_getUserSessions:
  "map (strip_fields [] args)
       (issued s (snd (getUserSessions rt cfg w args s)))
     = map (strip_fields [] args)
         (issued s' (snd (getUserSessions rt cfg w' args s')))"
proof (cases args)
  case None
  then show ?thesis
    by (simp add: getUserSessions_def issued_same)
next
  case (Some a)
  show ?thesis
    unfolding Some
    by (cases "truthy (a ''startDate'')"; cases "truthy (a ''endDate'')")
       (simp_all add: getUserSessions_def request_rules strip_fields_def time_derived_def)
qed

lemma shape_searchSessions_key:
  "map (strip_fields [(''start_date'', ''startDate''), (''end_date'', ''endDate'')] args)
       (issued s (snd (searchSessions_key rt cfg w args s)))
     = map (strip_fields [(''start_date'', ''startDate''), (''end_date'', ''endDate'')] args)
         (issued s' (snd (searchSessions_key rt cfg w' args s')))"
proof (cases args)
  case None
  then show ?thesis
    by (simp add: searchSessions_key_def issued_same)
next
  case (Some a)
  show ?thesis
    unfolding Some
    by (cases "truthy (a ''startDate'')"; cases "truthy (a ''endDate'')")
       (simp_all add: searchSessions_key_def request_rules strip_fields_def time_derived_def)
qed

lemma shape_getSessionDetails_key:
  "map (strip_fields [] args)
       (issued s (snd (getSessionDetails_key rt cfg w args s)))
     = map (strip_fields [] args)
         (issued s' (snd (getSessionDetails_key rt cfg w' args s')))"
proof (cases args)
  case None
  then show ?thesis
    by (simp add: getSessionDetails_key_def issued_same)
next
  case (Some a)
  show ?thesis
    unfolding Some
    by (cases "truthy (a ''startDate'')"; cases "truthy (a ''endDate'')")
       (simp_all add: getSessionDetails_key_def request_rules strip_fields_def time_derived_def)
qed

lemma shape_getSessionEvents_key:
  "map (strip_fields [] args)
       (issued s (snd (getSessionEvents_key rt cfg w args s)))
     = map (strip_fields [] args)
         (issued s' (snd (getSessionEvents_key rt cfg w' args s')))"
proof (cases args)
  case None
  then show ?thesis
    by (simp add: getSessionEvents_key_def issued_same)
next
  case (Some a)
  show ?thesis
    unfolding Some
    by (cases "truthy (a ''startDate'')"; cases "truthy (a ''endDate'')")
       (simp_all add: getSessionEvents_key_def request_rules strip_fields_def time_derived_def)
qed

lemma shape_aggregateSessions_key:
  "map (strip_fields [] args)
       (issued s (snd (aggregateSessions_key rt cfg w args s)))
     = map (strip_fields [] args)
         (issued s' (snd (aggregateSessions_key rt cfg w' args s')))"
proof (cases args)
  case None
  then show ?thesis
    by (simp add: aggregateSessions_key_def issued_same)
next
  case (Some a)
  show ?thesis
    unfolding Some
    by (cases "truthy (a ''startDate'')"; cases "truthy (a ''endDate'')")
       (simp_all add: aggregateSessions_key_def request_rules strip_fields_def time_derived_def)
qed

lemma shape_getUserJourney_key:
  "map (strip_fields [(''start_date'', ''startDate''), (''end_date'', ''endDate'')] args)
       (issued s (snd (getUserJourney_key rt cfg w args s)))
     = map (strip_fields [(''start_date'', ''startDate''), (''end_date'', ''endDate'')] args)
         (issued s' (snd (getUserJourney_key rt cfg w' args s')))"
proof (cases args)
  case None
  then show ?thesis
    by (simp add: getUserJourney_key_def issued_same)
next
  case (Some a)
  show ?thesis
    unfolding Some
    by (cases "truthy (a ''startDate'')"; cases "truthy (a ''endDate'')")
       (simp_all add: getUserJourney_key_def request_rules strip_fields_def time_derived_def)
qed

lemma shape_getErrorsIssues_key:
  "map (strip_fields [] args)
       (issued s (snd (getErrorsIssues_key rt cfg w args s)))
     = map (strip_fields [] args)
         (issued s' (snd (getErrorsIssues_key rt cfg w' args s')))"
proof (cases args)
  case None
  then show ?thesis
    by (simp add: getErrorsIssues_key_def issued_same)
next
  case (Some a)
  show ?thesis
    unfolding Some
    by (cases "truthy (a ''startDate'')"; cases "truthy (a ''endDate'')")
       (simp_all add: getErrorsIssues_key_def request_rules strip_fields_def time_derived_def)
qed

lemma shape_getFunnelAnalysis_key:
  "map (strip_fields [] args)
       (issued s (snd (getFunnelAnalysis_key rt cfg w args s)))
     = map (strip_fields [] args)
         (issued s' (snd (getFunnelAnalysis_key rt cfg w' args s')))"
proof (cases args)
  case None
  then show ?thesis
    by (simp add: getFunnelAnalysis_key_def issued_same)
next
  case (Some a)
  show ?thesis
    unfolding Some
    by (cases "truthy (a ''startDate'')"; cases "truthy (a ''endDate'')")
       (simp_all add: getFunnelAnalysis_key_def request_rules strip_fields_def time_derived_def)
qed

lemma shape_getPerformanceMetrics_key:
  "map (strip_fields [] args)
       (issued s (snd (getPerformanceMetrics_key rt cfg w args s)))
     = map (strip_fields [] args)
         (issued s' (snd (getPerformanceMetrics_key rt cfg w' args s')))"
proof (cases args)
  case None
  then show ?thesis
    by (simp add: getPerformanceMetrics_key_def issued_same)
next
  case (Some a)
  show ?thesis
    unfolding Some
    by (cases "truthy (a ''startDate'')"; cases "truthy (a ''endDate'')")
       (simp_all add: getPerformanceMetrics_key_def request_rules strip_fields_def time_derived_def)
qed

lemma shape_executeCustomQuery_key:
  "map (strip_fields [] args)
       (issued s (snd (executeCustomQuery_key rt cfg w args s)))
     = map (strip_fields [] args)
         (issued s' (snd (executeCustomQuery_key rt cfg w' args s')))"
proof (cases args)
  case None
  then show ?thesis
    by (simp add: executeCustomQuery_key_def issued_same)
next
  case (Some a)
  show ?thesis
    unfolding Some
    by (cases "truthy (a ''startDate'')"; cases "truthy (a ''endDate'')")
       (simp_all add: executeCustomQuery_key_def request_rules strip_fields_def time_derived_def)
qed











































text \<open>The shape of what the dispatcher sends, from that of its handlers.\<close>

lemmas shape_handlers =
  shape_listProjects shape_searchSessions shape_getSessionDetails shape_getSessionEvents
  shape_aggregateSessions shape_getUserJourney shape_getErrorsIssues shape_getFunnelAnalysis
  shape_getPerformanceMetrics shape_executeCustomQuery shape_getUserSessions
  shape_searchSessions_key shape_getSessionDetails_key shape_getSessionEvents_key
  shape_aggregateSessions_key shape_getUserJourney_key shape_getErrorsIssues_key
  shape_getFunnelAnalysis_key shape_getPerformanceMetrics_key shape_executeCustomQuery_key

lemma shape_eq: "shape mode name args = strip_fields (time_defaults mode name) args"
  by (rule ext) (simp add: shape_def)

lemma shape_callTool:
  "map (shape FullAccess name args) (issued s (snd (callTool rt cfg w name args s)))
     = map (shape FullAccess name args) (issued s' (snd (callTool rt cfg w' name args s')))"
  by (simp add: callTool_def shape_eq time_defaults_def issued_same shape_handlers)

lemma shape_callTool_key:
  "map (shape ApiKey name args) (issued s (snd (callTool_key rt cfg w name args s)))
     = map (shape ApiKey name args) (issued s' (snd (callTool_key rt cfg w' name args s')))"
  by (simp add: callTool_key_def shape_eq time_defaults_def issued_same shape_handlers)

lemma shape_handle:
  "map (shape mode name args) (issued s (snd (handle mode rt cfg w name args s)))
     = map (shape mode name args) (issued s' (snd (handle mode rt cfg w' name args s')))"
  by (cases mode)
     (simp_all add: handle_def snd_catch_error dispatch_def shape_callTool shape_callTool_key)

text \<open>
  Only defaulted dates are left out of a shape: when the caller gives both dates, the
  shape of a request is the request.
\<close>

lemma shape_keeps_given_dates:
  assumes "truthy (a ''startDate'')" and "truthy (a ''endDate'')"
  shows "shape mode name (Some a) q = q"
proof -
  have "\<not> time_derived (time_defaults mode name) a k" for k
    using assms
    by (cases mode) (auto simp add: time_defaults_def time_derived_def split: option.splits)
  then show ?thesis
    by (cases "req_body q") (simp_all add: shape_def strip_fields_def)
qed

text \<open>
  The two dates of the full-access \<open>search_sessions\<close> come from two successive readings
  of the clock: the range is 7 days and the time between the two readings.
\<close>

lemma searchSessions_two_readings:
  "issued s (snd (handle FullAccess rt cfg w ''search_sessions'' (Some Map.empty) s))
     = [\<lparr>req_method = POST,
         req_path = ''/v1/projects/'' @ OPENREPLAY_PROJECT_ID cfg @ ''/sessions/search'',
         req_params = [],
         req_body = Some
           [(''startDate'', Some (JStr (Date_toISOString rt (clock w (reads s) - seven_days)))),
            (''endDate'', Some (JStr (Date_toISOString rt (clock w (Suc (reads s)))))),
            (''filters'', Some (JArr [])),
            (''limit'', Some (JNum 50)),
            (''offset'', Some (JNum 0)),
            (''sort'', Some (JObj [(''field'', JStr ''startedAt''),
                                  (''order'', JStr ''desc'')]))]\<rparr>]"
  by (simp add: handle_def snd_catch_error dispatch_def callTool_def searchSessions_def
        request_rules lazy_or_def iso_ago_def Date_now_def or_else_def)

section \<open>The tools the API key cannot serve\<close>

lemma aggregate_sessions_key:
  "handle ApiKey rt cfg w ''aggregate_sessions'' args s
     = (Inr (text_result ''Session aggregation is not available via API key authentication. You can retrieve individual user sessions instead.''), s)"
  by (simp add: handle_def dispatch_def callTool_key_def aggregateSessions_key_def catch_error_def)

lemma get_errors_issues_key:
  "handle ApiKey rt cfg w ''get_errors_issues'' args s
     = (Inr (text_result ''Error analysis is not available via API key authentication. JWT authentication is required for this feature.''), s)"
  by (simp add: handle_def dispatch_def callTool_key_def getErrorsIssues_key_def catch_error_def)

lemma get_funnel_analysis_key:
  "handle ApiKey rt cfg w ''get_funnel_analysis'' args s
     = (Inr (text_result ''Funnel analysis is not available via API key authentication. JWT authentication is required for this feature.''), s)"
  by (simp add: handle_def dispatch_def callTool_key_def getFunnelAnalysis_key_def catch_error_def)

lemma get_performance_metrics_key:
  "handle ApiKey rt cfg w ''get_performance_metrics'' args s
     = (Inr (text_result ''Performance metrics are not available via API key authentication. JWT authentication is required for this feature.''), s)"
  by (simp add: handle_def dispatch_def callTool_key_def getPerformanceMetrics_key_def
        catch_error_def)

lemma execute_custom_query_key:
  "handle ApiKey rt cfg w ''execute_custom_query'' (Some a) s
     = (Inr (text_result ''Custom queries are not directly supported. Please use the specific search and filter tools instead.''), s)"
  by (simp add: handle_def dispatch_def callTool_key_def executeCustomQuery_key_def
        catch_error_def)

lemma get_session_details_key:
  "handle ApiKey rt cfg w ''get_session_details'' (Some a) s
     = (Inr (text_result ''Session replay details are not available via API key authentication. Use get_session_events instead or use JWT authentication for full access.''), s)"
  by (simp add: handle_def dispatch_def callTool_key_def getSessionDetails_key_def
        catch_error_def)

lemma search_sessions_key_no_user:
  "\<not> truthy (a ''userId'') \<Longrightarrow>
   handle ApiKey rt cfg w ''search_sessions'' (Some a) s
     = (Inr (text_result ''Session search requires a userId when using API key authentication. For full search capabilities, JWT authentication is needed.''), s)"
  by (simp add: handle_def dispatch_def callTool_key_def searchSessions_key_def catch_error_def)

section \<open>Worked examples\<close>

lemma example_seven_days_ago:
  "Date_toISOString example_runtime (1700000000000 - 7 * 24 * 60 * 60 * 1000)
     = ''2023-11-07T22:13:20.000Z''"
  by code_simp

lemma example_now:
  "Date_toISOString example_runtime 1700000000000 = ''2023-11-14T22:13:20.000Z''"
  by code_simp

lemma example_week_before:
  "Date_toISOString example_runtime 1699395200000 = ''2023-11-07T22:13:20.000Z''"
  by code_simp

lemma example_quarter_second_later:
  "Date_toISOString example_runtime 1700000000250 = ''2023-11-14T22:13:20.250Z''"
  by code_simp

lemma example_time_values:
  "Date_getTime example_runtime (Some (JStr ''2023-11-07T22:13:20.000Z'')) = JNum 1699395200000"
  "Date_getTime example_runtime (Some (JStr ''2023-11-14T22:13:20.250Z'')) = JNum 1700000000250"
  by code_simp+

lemma stringify_total_3:
  "JSON_stringify example_runtime (JObj [(''total'', JNum 3)])
     = ''{'' @ [CHR 0x0A] @ ''  '' @ [CHR 0x22] @ ''total'' @ [CHR 0x22] @ '': 3''
       @ [CHR 0x0A] @ ''}''"
  by code_simp


section \<open>Properties of the dispatcher\<close>

text \<open>
  C1. For every tool name of the registry, \<open>handle\<close> returns a ToolResult, whatever the
  arguments (an \<open>undefined\<close> argument object included) and however the outbound call
  ends. For every other name it throws the method-not-found fault and sends nothing, and
  that fault is the only error \<open>handle\<close> ever throws.
\<close>

theorem handle_returns_or_method_not_found:
  "(declared mode name \<longrightarrow> (\<exists>r. fst (handle mode rt cfg w name args s) = Inr r))
   \<and> (\<not> declared mode name \<longrightarrow>
        handle mode rt cfg w name args s
          = (Inl (McpError MethodNotFound (''Unknown tool: '' @ name)), s))
   \<and> (\<forall>e. fst (handle mode rt cfg w name args s) = Inl e \<longrightarrow>
        e = McpError MethodNotFound (''Unknown tool: '' @ name) \<and> \<not> declared mode name)"
proof (cases "declared mode name")
  case True
  then have "tame rt w s (dispatch mode rt cfg w name args s)"
    by (rule dispatch_declared)
  then obtain t where "fst (handle mode rt cfg w name args s) = Inr (text_result t)"
    unfolding handle_def using fst_catch_error_tame by blast
  with True show ?thesis by simp
next
  case False
  then have "handle mode rt cfg w name args s
      = (Inl (McpError MethodNotFound (''Unknown tool: '' @ name)), s)"
    by (simp add: handle_def dispatch_undeclared catch_error_def)
  with False show ?thesis by simp
qed

theorem handle_returns_or_method_not_found_witness:
  "declared FullAccess ''search_sessions''
   \<and> (\<exists>r. fst (handle FullAccess example_runtime example_config failing_world
                ''search_sessions'' None start_trace) = Inr r)
   \<and> \<not> declared ApiKey ''delete_project''
   \<and> handle ApiKey example_runtime example_config failing_world
        ''delete_project'' (Some Map.empty) start_trace
      = (Inl (McpError MethodNotFound ''Unknown tool: delete_project''), start_trace)"
proof -
  have d: "declared FullAccess ''search_sessions''"
    by (simp add: declared_def listTools_def)
  have n: "\<not> declared ApiKey ''delete_project''"
    by (simp add: declared_def listTools_def)
  note known = handle_returns_or_method_not_found
      [of FullAccess "''search_sessions''" example_runtime example_config failing_world
          None start_trace, THEN conjunct1, THEN mp, OF d]
  note unknown = handle_returns_or_method_not_found
      [of ApiKey "''delete_project''" example_runtime example_config failing_world
          "Some Map.empty" start_trace, THEN conjunct2, THEN conjunct1, THEN mp, OF n]
  from d n known unknown show ?thesis
    by simp
qed

text \<open>
  C2, as the code has it. In the full-access mode, \<open>search_sessions\<close> with an empty
  argument bag sends exactly one request: a POST to the session search of the project
  whose body has \<open>filters\<close> the empty array, \<open>limit\<close> 50, \<open>offset\<close> 0 and \<open>sort\<close>
  \<open>{field: "startedAt", order: "desc"}\<close>. The handler reads the clock once for each date:
  \<open>startDate\<close> is the first reading minus 7 days and \<open>endDate\<close> is the second reading,
  both in ISO format. The range is 7 days and the time that passes between the two
  readings; it is exactly 7 days only when the clock does not advance between them.
\<close>

theorem searchSessions_defaults:
  "issued s (snd (handle FullAccess rt cfg w ''search_sessions'' (Some Map.empty) s))
     = [\<lparr>req_method = POST,
          req_path = ''/v1/projects/'' @ OPENREPLAY_PROJECT_ID cfg @ ''/sessions/search'',
          req_params = [],
          req_body = Some
            [(''startDate'', Some (JStr (Date_toISOString rt (clock w (reads s) - 7 * 24 * 60 * 60 * 1000)))),
             (''endDate'', Some (JStr (Date_toISOString rt (clock w (Suc (reads s)))))),
             (''filters'', Some (JArr [])),
             (''limit'', Some (JNum 50)),
             (''offset'', Some (JNum 0)),
             (''sort'', Some (JObj [(''field'', JStr ''startedAt''),
                                   (''order'', JStr ''desc'')]))]\<rparr>]"
  by (simp add: handle_def snd_catch_error dispatch_def callTool_def searchSessions_def
        request_rules lazy_or_def iso_ago_def Date_now_def or_else_def seven_days_def)

theorem searchSessions_defaults_witness:
  "issued start_trace (snd (handle FullAccess example_runtime example_config
        answering_world ''search_sessions'' (Some Map.empty) start_trace))
     = [\<lparr>req_method = POST,
          req_path = ''/v1/projects/p1/sessions/search'',
          req_params = [],
          req_body = Some
            [(''startDate'', Some (JStr ''2023-11-07T22:13:20.000Z'')),
             (''endDate'', Some (JStr ''2023-11-14T22:13:20.000Z'')),
             (''filters'', Some (JArr [])),
             (''limit'', Some (JNum 50)),
             (''offset'', Some (JNum 0)),
             (''sort'', Some (JObj [(''field'', JStr ''startedAt''),
                                   (''order'', JStr ''desc'')]))]\<rparr>]"
proof -
  have h1: "clock answering_world (reads start_trace) = 1700000000000"
    by (simp add: answering_world_def)
  have h2: "clock answering_world (Suc (reads start_trace)) = 1700000000000"
    by (simp add: answering_world_def)
  have c: "''/v1/projects/'' @ OPENREPLAY_PROJECT_ID example_config @ ''/sessions/search''
             = ''/v1/projects/p1/sessions/search''"
    by (simp add: example_config_def)
  note searchSessions_defaults
      [where rt = example_runtime and cfg = example_config and w = answering_world
         and s = start_trace]
  then show ?thesis
    by (simp only: h1 h2 c example_seven_days_ago example_now)
qed

text \<open>
  The claim as stated fails when the clock advances between the two readings. In a
  world whose clock gains a quarter of a second at each reading, \<open>startDate\<close> is
  2023-11-07T22:13:20.000Z and \<open>endDate\<close> is 2023-11-14T22:13:20.250Z: the range is
  604800250 milliseconds, a quarter of a second more than 7 days, and \<open>startDate\<close> is not
  \<open>endDate\<close> minus 7 days.
\<close>

theorem searchSessions_defaults_counterexample:
  "issued start_trace (snd (handle FullAccess example_runtime example_config
        ticking_world ''search_sessions'' (Some Map.empty) start_trace))
     = [\<lparr>req_method = POST,
          req_path = ''/v1/projects/p1/sessions/search'',
          req_params = [],
          req_body = Some
            [(''startDate'', Some (JStr ''2023-11-07T22:13:20.000Z'')),
             (''endDate'', Some (JStr ''2023-11-14T22:13:20.250Z'')),
             (''filters'', Some (JArr [])),
             (''limit'', Some (JNum 50)),
             (''offset'', Some (JNum 0)),
             (''sort'', Some (JObj [(''field'', JStr ''startedAt''),
                                   (''order'', JStr ''desc'')]))]\<rparr>]
   \<and> Date_getTime example_runtime (Some (JStr ''2023-11-07T22:13:20.000Z''))
       = JNum 1699395200000
   \<and> Date_getTime example_runtime (Some (JStr ''2023-11-14T22:13:20.250Z''))
       = JNum 1700000000250
   \<and> (1700000000250 :: int) - 1699395200000 \<noteq> seven_days"
proof -
  have i: "issued start_trace (snd (handle FullAccess example_runtime example_config
        ticking_world ''search_sessions'' (Some Map.empty) start_trace))
     = [\<lparr>req_method = POST,
          req_path = ''/v1/projects/p1/sessions/search'',
          req_params = [],
          req_body = Some
            [(''startDate'', Some (JStr ''2023-11-07T22:13:20.000Z'')),
             (''endDate'', Some (JStr ''2023-11-14T22:13:20.250Z'')),
             (''filters'', Some (JArr [])),
             (''limit'', Some (JNum 50)),
             (''offset'', Some (JNum 0)),
             (''sort'', Some (JObj [(''field'', JStr ''startedAt''),
                                   (''order'', JStr ''desc'')]))]\<rparr>]"
    by (simp add: handle_def snd_catch_error dispatch_def callTool_def searchSessions_def
          request_rules lazy_or_def iso_ago_def Date_now_def or_else_def seven_days_def
          ticking_world_def start_trace_def example_config_def example_week_before
          example_quarter_second_later)
  have d: "(1700000000250 :: int) - 1699395200000 \<noteq> seven_days"
    by (simp add: seven_days_def)
  from i example_time_values d show ?thesis
    by (intro conjI)
qed

text \<open>
  C3. In the API-key mode, \<open>aggregate_sessions\<close> returns its fixed text and leaves the
  trace as it was (no request is sent), whatever the arguments, an \<open>undefined\<close> argument
  object included. So do \<open>get_errors_issues\<close>, \<open>get_funnel_analysis\<close> and
  \<open>get_performance_metrics\<close>; so do \<open>execute_custom_query\<close> and \<open>get_session_details\<close>
  for every argument bag, and \<open>search_sessions\<close> for every argument bag with no
  \<open>userId\<close>.
\<close>

theorem api_key_unsupported_tools:
  "handle ApiKey rt cfg w ''aggregate_sessions'' args s
     = (Inr (text_result ''Session aggregation is not available via API key authentication. You can retrieve individual user sessions instead.''), s)
   \<and> handle ApiKey rt cfg w ''get_errors_issues'' args s
     = (Inr (text_result ''Error analysis is not available via API key authentication. JWT authentication is required for this feature.''), s)
   \<and> handle ApiKey rt cfg w ''get_funnel_analysis'' args s
     = (Inr (text_result ''Funnel analysis is not available via API key authentication. JWT authentication is required for this feature.''), s)
   \<and> handle ApiKey rt cfg w ''get_performance_metrics'' args s
     = (Inr (text_result ''Performance metrics are not available via API key authentication. JWT authentication is required for this feature.''), s)
   \<and> handle ApiKey rt cfg w ''execute_custom_query'' (Some a) s
     = (Inr (text_result ''Custom queries are not directly supported. Please use the specific search and filter tools instead.''), s)
   \<and> handle ApiKey rt cfg w ''get_session_details'' (Some a) s
     = (Inr (text_result ''Session replay details are not available via API key authentication. Use get_session_events instead or use JWT authentication for full access.''), s)
   \<and> (a ''userId'' = None \<longrightarrow>
        handle ApiKey rt cfg w ''search_sessions'' (Some a) s
          = (Inr (text_result ''Session search requires a userId when using API key authentication. For full search capabilities, JWT authentication is needed.''), s))"
proof (intro conjI impI)
  assume "a ''userId'' = None"
  then have "\<not> truthy (a ''userId'')" by simp
  then show "handle ApiKey rt cfg w ''search_sessions'' (Some a) s
      = (Inr (text_result ''Session search requires a userId when using API key authentication. For full search capabilities, JWT authentication is needed.''), s)"
    by (rule search_sessions_key_no_user)
qed (rule aggregate_sessions_key get_errors_issues_key get_funnel_analysis_key
       get_performance_metrics_key execute_custom_query_key get_session_details_key)+

theorem api_key_unsupported_tools_witness:
  "[''startDate'' \<mapsto> JStr ''2024-01-01''] ''userId'' = None
   \<and> handle ApiKey example_runtime example_config answering_world ''search_sessions''
        (Some [''startDate'' \<mapsto> JStr ''2024-01-01'']) start_trace
      = (Inr (text_result ''Session search requires a userId when using API key authentication. For full search capabilities, JWT authentication is needed.''), start_trace)"
proof -
  have h: "[''startDate'' \<mapsto> JStr ''2024-01-01''] ''userId'' = None"
    by simp
  note api_key_unsupported_tools
      [of example_runtime example_config answering_world None start_trace
          "[''startDate'' \<mapsto> JStr ''2024-01-01'']",
       THEN conjunct2, THEN conjunct2, THEN conjunct2, THEN conjunct2, THEN conjunct2,
       THEN conjunct2, THEN mp, OF h]
  with h show ?thesis by simp
qed

text \<open>
  C4. In the full-access mode, for every argument bag: when the remote answers the one
  request of \<open>get_session_details\<close> with the body \<open>B\<close>, the result is the single text
  \<open>JSON.stringify(B, null, 2)\<close>. The body is not inspected: the result depends on \<open>B\<close>
  through the serialisation only. The request is a GET of the session's path, where a
  \<open>sessionId\<close> that is a string stands as it is.
\<close>

theorem getSessionDetails_passes_body_through:
  assumes "a ''sessionId'' = Some (JStr sessionId)"
    and "remote w (length (sent s))
             \<lparr>req_method = GET,
              req_path = ''/v1/projects/'' @ OPENREPLAY_PROJECT_ID cfg @ ''/sessions/''
                           @ sessionId,
              req_params = [], req_body = None\<rparr> = Resolved B"
  shows "fst (handle FullAccess rt cfg w ''get_session_details'' (Some a) s)
           = Inr (text_result (JSON_stringify rt B))
         \<and> issued s (snd (handle FullAccess rt cfg w ''get_session_details'' (Some a) s))
           = [\<lparr>req_method = GET,
               req_path = ''/v1/projects/'' @ OPENREPLAY_PROJECT_ID cfg @ ''/sessions/''
                            @ sessionId,
               req_params = [], req_body = None\<rparr>]"
  using assms
  by (simp add: handle_def dispatch_def callTool_def getSessionDetails_def reply_def
        api_get_def api_call_def catch_error_def issued_def ToString_def)

theorem getSessionDetails_passes_body_through_witness:
  "[''sessionId'' \<mapsto> JStr ''abc''] ''sessionId'' = Some (JStr ''abc'')
   \<and> remote answering_world (length (sent start_trace))
       \<lparr>req_method = GET,
        req_path = ''/v1/projects/'' @ OPENREPLAY_PROJECT_ID example_config @ ''/sessions/''
                     @ ''abc'',
        req_params = [], req_body = None\<rparr> = Resolved (JObj [(''total'', JNum 3)])
   \<and> fst (handle FullAccess example_runtime example_config answering_world
            ''get_session_details'' (Some [''sessionId'' \<mapsto> JStr ''abc'']) start_trace)
     = Inr (text_result (''{'' @ [CHR 0x0A] @ ''  '' @ [CHR 0x22] @ ''total'' @ [CHR 0x22]
              @ '': 3'' @ [CHR 0x0A] @ ''}''))"
proof -
  have h1: "[''sessionId'' \<mapsto> JStr ''abc''] ''sessionId'' = Some (JStr ''abc'')"
    by simp
  have h2: "remote answering_world (length (sent start_trace))
      \<lparr>req_method = GET,
       req_path = ''/v1/projects/'' @ OPENREPLAY_PROJECT_ID example_config @ ''/sessions/''
                    @ ''abc'',
       req_params = [], req_body = None\<rparr> = Resolved (JObj [(''total'', JNum 3)])"
    by (simp add: answering_world_def)
  note getSessionDetails_passes_body_through
      [where a = "[''sessionId'' \<mapsto> JStr ''abc'']" and sessionId = "''abc''"
         and w = answering_world and s = start_trace and cfg = example_config
         and rt = example_runtime and B = "JObj [(''total'', JNum 3)]",
       OF h1 h2, THEN conjunct1]
  then have "fst (handle FullAccess example_runtime example_config answering_world
            ''get_session_details'' (Some [''sessionId'' \<mapsto> JStr ''abc'']) start_trace)
     = Inr (text_result (''{'' @ [CHR 0x0A] @ ''  '' @ [CHR 0x22] @ ''total'' @ [CHR 0x22]
              @ '': 3'' @ [CHR 0x0A] @ ''}''))"
    by (simp only: stringify_total_3)
  with h1 h2 show ?thesis
    by (intro conjI)
qed

text \<open>
  C5. When the one request of a call is rejected with an error whose message is the
  non-empty string \<open>m\<close>, \<open>handle\<close> does not throw: it returns the text \<open>Error: m\<close>, which
  contains \<open>m\<close>. When the message is absent or the empty string, the text is
  \<open>Error: Unknown error occurred\<close>.
\<close>

theorem handle_converts_rejection:
  assumes "issued s (snd (handle mode rt cfg w name args s)) = [q]"
  shows "(remote w (length (sent s)) q = Rejected (Some (JStr m)) \<and> m \<noteq> [] \<longrightarrow>
            fst (handle mode rt cfg w name args s) = Inr (text_result (''Error: '' @ m))
            \<and> sublist m (''Error: '' @ m))
         \<and> (remote w (length (sent s)) q = Rejected None
              \<or> remote w (length (sent s)) q = Rejected (Some (JStr [])) \<longrightarrow>
            fst (handle mode rt cfg w name args s)
              = Inr (text_result ''Error: Unknown error occurred''))"
proof -
  from assms have q: "issued s (snd (dispatch mode rt cfg w name args s)) = [q]"
    by (simp add: handle_def snd_catch_error)
  then have "declared mode name"
    using undeclared_issued [of mode name s rt cfg w args] by auto
  then have t: "tame rt w s (dispatch mode rt cfg w name args s)"
    by (rule dispatch_declared)
  have thrown: "fst (dispatch mode rt cfg w name args s) = Inl (JsError msg)"
    if "remote w (length (sent s)) q = Rejected msg" for msg
    using tame_rejected [OF t q that] .
  have caught: "fst (handle mode rt cfg w name args s)
      = Inr (text_result (''Error: '' @ ToString rt (or_else msg (JStr ''Unknown error occurred''))))"
    if "remote w (length (sent s)) q = Rejected msg" for msg
    using thrown [OF that]
    by (cases "dispatch mode rt cfg w name args s") (simp add: handle_def catch_error_def)
  have "sublist m (''Error: '' @ m @ [])"
    by (rule sublist_appendI)
  then have "sublist m (''Error: '' @ m)"
    by simp
  then show ?thesis
    using caught [of "Some (JStr m)"] caught [of None] caught [of "Some (JStr [])"]
    by (cases m) (auto simp add: or_else_def ToString_def)
qed

theorem handle_converts_rejection_witness:
  "issued start_trace (snd (handle ApiKey example_runtime example_config failing_world
      ''get_session_events'' (Some [''sessionId'' \<mapsto> JStr ''abc'']) start_trace))
     = [\<lparr>req_method = GET, req_path = ''/api/v1/k1/sessions/abc/events'', req_params = [],
         req_body = None\<rparr>]
   \<and> remote failing_world (length (sent start_trace))
        \<lparr>req_method = GET, req_path = ''/api/v1/k1/sessions/abc/events'', req_params = [],
         req_body = None\<rparr> = Rejected (Some (JStr ''ECONNRESET''))
   \<and> fst (handle ApiKey example_runtime example_config failing_world
        ''get_session_events'' (Some [''sessionId'' \<mapsto> JStr ''abc'']) start_trace)
      = Inr (text_result ''Error: ECONNRESET'')
   \<and> sublist ''ECONNRESET'' ''Error: ECONNRESET''"
proof -
  have i: "issued start_trace (snd (handle ApiKey example_runtime example_config failing_world
      ''get_session_events'' (Some [''sessionId'' \<mapsto> JStr ''abc'']) start_trace))
     = [\<lparr>req_method = GET, req_path = ''/api/v1/k1/sessions/abc/events'', req_params = [],
         req_body = None\<rparr>]"
    by (simp add: handle_def snd_catch_error dispatch_def callTool_key_def
          getSessionEvents_key_def reply_def api_get_def api_call_def failing_world_def
          issued_def start_trace_def example_config_def ToString_def)
  have r: "remote failing_world (length (sent start_trace))
        \<lparr>req_method = GET, req_path = ''/api/v1/k1/sessions/abc/events'', req_params = [],
         req_body = None\<rparr> = Rejected (Some (JStr ''ECONNRESET''))"
    by (simp add: failing_world_def)
  from handle_converts_rejection [OF i, of "''ECONNRESET''"] i r show ?thesis by simp
qed

text \<open>
  C6, as the code has it. For \<open>get_user_journey\<close> only the API-key mode fills in dates.
  There, each of the two parameters is defaulted on its own: \<open>start_date\<close> is the time
  value of the caller's \<open>startDate\<close> when that is truthy and the clock reading minus 30
  days otherwise; \<open>end_date\<close> is the time value of the caller's \<open>endDate\<close> when that is
  truthy and the clock reading otherwise. In the full-access mode the handler reads no
  clock and forwards \<open>startDate\<close>, \<open>endDate\<close> and \<open>includeEvents\<close> as the caller gave
  them, \<open>undefined\<close> when absent. No mode applies a window of 7 days.
\<close>

theorem getUserJourney_dates:
  "issued s (snd (handle ApiKey rt cfg w ''get_user_journey'' (Some a) s))
     = [\<lparr>req_method = GET,
         req_path = ''/api/v1/'' @ OPENREPLAY_PROJECT_KEY cfg @ ''/users/''
                      @ ToString rt (a ''userId'') @ ''/sessions'',
         req_params =
           [(''start_date'',
               if truthy (a ''startDate'') then Some (Date_getTime rt (a ''startDate''))
               else Some (JNum (of_int (clock w (reads s) - 30 * 24 * 60 * 60 * 1000)))),
            (''end_date'',
               if truthy (a ''endDate'') then Some (Date_getTime rt (a ''endDate''))
               else Some (JNum (of_int
                      (clock w (if truthy (a ''startDate'') then reads s else Suc (reads s))))))],
         req_body = None\<rparr>]
   \<and> issued s (snd (handle FullAccess rt cfg w ''get_user_journey'' (Some a) s))
     = [\<lparr>req_method = GET,
         req_path = ''/v1/projects/'' @ OPENREPLAY_PROJECT_ID cfg @ ''/users/''
                      @ ToString rt (a ''userId'') @ ''/journey'',
         req_params =
           [(''startDate'', a ''startDate''),
            (''endDate'', a ''endDate''),
            (''includeEvents'', a ''includeEvents'')],
         req_body = None\<rparr>]
   \<and> reads (snd (handle FullAccess rt cfg w ''get_user_journey'' (Some a) s)) = reads s"
proof (intro conjI)
  show "issued s (snd (handle ApiKey rt cfg w ''get_user_journey'' (Some a) s))
     = [\<lparr>req_method = GET,
         req_path = ''/api/v1/'' @ OPENREPLAY_PROJECT_KEY cfg @ ''/users/''
                      @ ToString rt (a ''userId'') @ ''/sessions'',
         req_params =
           [(''start_date'',
               if truthy (a ''startDate'') then Some (Date_getTime rt (a ''startDate''))
               else Some (JNum (of_int (clock w (reads s) - 30 * 24 * 60 * 60 * 1000)))),
            (''end_date'',
               if truthy (a ''endDate'') then Some (Date_getTime rt (a ''endDate''))
               else Some (JNum (of_int
                      (clock w (if truthy (a ''startDate'') then reads s else Suc (reads s))))))],
         req_body = None\<rparr>]"
    by (cases "truthy (a ''startDate'')"; cases "truthy (a ''endDate'')")
       (simp_all add: handle_def snd_catch_error dispatch_def callTool_key_def
          getUserJourney_key_def request_rules time_or_def ms_ago_def Date_now_def
          thirty_days_def)
  show "issued s (snd (handle FullAccess rt cfg w ''get_user_journey'' (Some a) s))
     = [\<lparr>req_method = GET,
         req_path = ''/v1/projects/'' @ OPENREPLAY_PROJECT_ID cfg @ ''/users/''
                      @ ToString rt (a ''userId'') @ ''/journey'',
         req_params =
           [(''startDate'', a ''startDate''),
            (''endDate'', a ''endDate''),
            (''includeEvents'', a ''includeEvents'')],
         req_body = None\<rparr>]"
    by (simp add: handle_def snd_catch_error dispatch_def callTool_def getUserJourney_def
          request_rules)
  show "reads (snd (handle FullAccess rt cfg w ''get_user_journey'' (Some a) s)) = reads s"
    by (simp add: handle_def snd_catch_error dispatch_def callTool_def getUserJourney_def
          api_get_def api_call_def reply_def split: http_outcome.splits)
qed

text \<open>
  The claim as stated fails in the full-access mode: for the arguments \<open>{userId: "u1"}\<close>
  the request carries \<open>undefined\<close> for \<open>startDate\<close> and for \<open>endDate\<close> (no date of any
  window, neither 7 nor 30 days before the clock's 1700000000000), and the clock is not
  read.
\<close>

theorem getUserJourney_window_counterexample:
  "issued start_trace (snd (handle FullAccess example_runtime example_config answering_world
       ''get_user_journey'' (Some [''userId'' \<mapsto> JStr ''u1'']) start_trace))
     = [\<lparr>req_method = GET, req_path = ''/v1/projects/p1/users/u1/journey'',
         req_params = [(''startDate'', None), (''endDate'', None), (''includeEvents'', None)],
         req_body = None\<rparr>]
   \<and> reads (snd (handle FullAccess example_runtime example_config answering_world
       ''get_user_journey'' (Some [''userId'' \<mapsto> JStr ''u1'']) start_trace)) = 0
   \<and> \<not> (\<exists>q v. issued start_trace (snd (handle FullAccess example_runtime example_config
                 answering_world ''get_user_journey'' (Some [''userId'' \<mapsto> JStr ''u1''])
                 start_trace)) = [q]
              \<and> ((''startDate'', Some v) \<in> set (payload q)
                   \<or> (''endDate'', Some v) \<in> set (payload q)))"
proof -
  have i: "issued start_trace (snd (handle FullAccess example_runtime example_config
       answering_world ''get_user_journey'' (Some [''userId'' \<mapsto> JStr ''u1'']) start_trace))
     = [\<lparr>req_method = GET, req_path = ''/v1/projects/p1/users/u1/journey'',
         req_params = [(''startDate'', None), (''endDate'', None), (''includeEvents'', None)],
         req_body = None\<rparr>]"
    by (simp add: handle_def snd_catch_error dispatch_def callTool_def getUserJourney_def
          request_rules example_config_def ToString_def)
  have r: "reads (snd (handle FullAccess example_runtime example_config answering_world
       ''get_user_journey'' (Some [''userId'' \<mapsto> JStr ''u1'']) start_trace)) = 0"
    by (simp add: handle_def snd_catch_error dispatch_def callTool_def getUserJourney_def
          api_get_def api_call_def reply_def answering_world_def start_trace_def)
  show ?thesis
    unfolding i using r by (simp add: payload_def i)
qed




text \<open>
  C8. One call of \<open>handle\<close> sends at most one request: the requests sent after the call
  are those sent before it, followed by at most one more. This holds for every world, so
  also when the request is rejected: nothing is sent again.
\<close>

theorem handle_at_most_one_request:
  "sent (snd (handle mode rt cfg w name args s))
     = sent s @ issued s (snd (handle mode rt cfg w name args s))
   \<and> length (issued s (snd (handle mode rt cfg w name args s))) \<le> 1"
proof (cases "declared mode name")
  case True
  then have "tame rt w s (dispatch mode rt cfg w name args s)"
    by (rule dispatch_declared)
  then show ?thesis
    using tame_sent [of rt w s "dispatch mode rt cfg w name args s"]
      tame_length [of rt w s "dispatch mode rt cfg w name args s"]
    by (simp add: handle_def snd_catch_error)
next
  case False
  then show ?thesis
    by (simp add: handle_def snd_catch_error dispatch_undeclared issued_def)
qed

text \<open>
  C9. The dispatcher keeps no state between calls. Invoking a tool twice in a row with
  the same arguments sends requests of the same shape (method, path and payload, the
  time-derived fields left out); and the shape of what the second call sends is that of
  the same call made in any other world \<open>w'\<close> after any other history \<open>s'\<close>, so it does
  not depend on the first call having been made. Nothing is assumed of the clock or of
  the remote, which may answer the two calls differently.
\<close>

theorem handle_stateless:
  "map (shape mode name args)
       (issued s (snd (handle mode rt cfg w name args s)))
     = map (shape mode name args)
         (issued (snd (handle mode rt cfg w name args s))
            (snd (handle mode rt cfg w name args (snd (handle mode rt cfg w name args s)))))
   \<and> map (shape mode name args)
         (issued (snd (handle mode rt cfg w name args s))
            (snd (handle mode rt cfg w name args (snd (handle mode rt cfg w name args s)))))
     = map (shape mode name args)
         (issued s' (snd (handle mode rt cfg w' name args s')))"
  using shape_handle [of mode name args s rt cfg w "snd (handle mode rt cfg w name args s)" w]
    shape_handle [of mode name args "snd (handle mode rt cfg w name args s)" rt cfg w s' w']
  by (intro conjI)

theorem handle_stateless_witness:
  "map (shape FullAccess ''search_sessions'' (Some Map.empty))
       (issued start_trace
          (snd (handle FullAccess example_runtime example_config ticking_world
                  ''search_sessions'' (Some Map.empty) start_trace)))
     = [\<lparr>req_method = POST, req_path = ''/v1/projects/p1/sessions/search'',
         req_params = [],
         req_body = Some
           [(''filters'', Some (JArr [])),
            (''limit'', Some (JNum 50)),
            (''offset'', Some (JNum 0)),
            (''sort'', Some (JObj [(''field'', JStr ''startedAt''),
                                  (''order'', JStr ''desc'')]))]\<rparr>]
   \<and> map (shape FullAccess ''search_sessions'' (Some Map.empty))
       (issued
          (snd (handle FullAccess example_runtime example_config ticking_world
                  ''search_sessions'' (Some Map.empty) start_trace))
          (snd (handle FullAccess example_runtime example_config ticking_world
                  ''search_sessions'' (Some Map.empty)
                  (snd (handle FullAccess example_runtime example_config ticking_world
                          ''search_sessions'' (Some Map.empty) start_trace)))))
     = [\<lparr>req_method = POST, req_path = ''/v1/projects/p1/sessions/search'',
         req_params = [],
         req_body = Some
           [(''filters'', Some (JArr [])),
            (''limit'', Some (JNum 50)),
            (''offset'', Some (JNum 0)),
            (''sort'', Some (JObj [(''field'', JStr ''startedAt''),
                                  (''order'', JStr ''desc'')]))]\<rparr>]"
proof -
  have first: "map (shape FullAccess ''search_sessions'' (Some Map.empty))
       (issued start_trace
          (snd (handle FullAccess example_runtime example_config ticking_world
                  ''search_sessions'' (Some Map.empty) start_trace)))
     = [\<lparr>req_method = POST, req_path = ''/v1/projects/p1/sessions/search'',
         req_params = [],
         req_body = Some
           [(''filters'', Some (JArr [])),
            (''limit'', Some (JNum 50)),
            (''offset'', Some (JNum 0)),
            (''sort'', Some (JObj [(''field'', JStr ''startedAt''),
                                  (''order'', JStr ''desc'')]))]\<rparr>]"
    by (simp add: searchSessions_two_readings shape_def time_defaults_def strip_fields_def
          time_derived_def example_config_def)
  note handle_stateless
      [of FullAccess "''search_sessions''" "Some Map.empty" start_trace example_runtime
          example_config ticking_world start_trace ticking_world, THEN conjunct1]
  with first show ?thesis
    by (simp only: simp_thms)
qed

text \<open>
  C10. Every ToolResult that \<open>handle\<close> returns has exactly one content item, of type
  \<open>text\<close>.
\<close>

theorem handle_result_single_text:
  "fst (handle mode rt cfg w name args s) = Inr r \<Longrightarrow> \<exists>c. content r = [c] \<and> ctype c = ''text''"
proof (cases "declared mode name")
  case True
  assume r: "fst (handle mode rt cfg w name args s) = Inr r"
  from True have "tame rt w s (dispatch mode rt cfg w name args s)"
    by (rule dispatch_declared)
  then obtain t where "fst (handle mode rt cfg w name args s) = Inr (text_result t)"
    unfolding handle_def using fst_catch_error_tame by blast
  with r have "r = text_result t" by simp
  then show ?thesis by (simp add: text_result_def)
next
  case False
  assume "fst (handle mode rt cfg w name args s) = Inr r"
  with False show ?thesis
    by (simp add: handle_def dispatch_undeclared catch_error_def)
qed

theorem handle_result_single_text_witness:
  "fst (handle ApiKey example_runtime example_config failing_world ''list_projects'' None
          start_trace) = Inr (text_result ''Error: ECONNRESET'')
   \<and> (\<exists>c. content (text_result ''Error: ECONNRESET'') = [c] \<and> ctype c = ''text'')"
proof -
  have r: "fst (handle ApiKey example_runtime example_config failing_world ''list_projects''
                  None start_trace) = Inr (text_result ''Error: ECONNRESET'')"
    by (simp add: handle_def dispatch_def callTool_key_def listProjects_def reply_def
          api_get_def api_call_def failing_world_def catch_error_def or_else_def ToString_def)
  from handle_result_single_text [OF r] r show ?thesis by simp
qed

end
